theory Spec2Isabelle
  imports Complex_Main "HOL-Library.Word" "HOL-Library.Multiset" "HOL-Library.Sublist"
begin

section \<open>Memory helpers (src/helpers.ts)\<close>

text \<open>
  The linear memory of the native module is read through a \<^verbatim>\<open>Uint8Array\<close>: a finite
  sequence of bytes. A read \<^verbatim>\<open>mem[end]\<close> at an index beyond the array yields
  \<^verbatim>\<open>undefined\<close>, which is not \<^verbatim>\<open>0\<close>, so the loop
  \<^verbatim>\<open>while (mem[end] !== 0) end++\<close> of \<^verbatim>\<open>getString\<close> walks on. The loop is a partial
  function: the value \<open>None\<close> stands for a scan that never returns.
\<close>

type_synonym byte = "8 word"

definition byteAt :: "byte list \<Rightarrow> nat \<Rightarrow> byte option" where
  "byteAt mem i = (if i < length mem then Some (mem ! i) else None)"

partial_function (option) scanZero :: "byte list \<Rightarrow> nat \<Rightarrow> nat option" where
  "scanZero mem e = (if byteAt mem e \<noteq> Some 0 then scanZero mem (e + 1) else Some e)"

declare scanZero.simps [code]

text \<open>
  \<^verbatim>\<open>new TextDecoder().decode(mem.subarray(ptr, end))\<close>: the decoder belongs to the
  platform, so it is a parameter; \<^verbatim>\<open>subarray(ptr, end)\<close> is the byte range from
  \<open>ptr\<close> up to \<open>end\<close>, exclusive.
\<close>

definition getString :: "(byte list \<Rightarrow> string) \<Rightarrow> byte list \<Rightarrow> nat \<Rightarrow> string option" where
  "getString decode mem ptr =
     (case scanZero mem ptr of
        None \<Rightarrow> None
      | Some e \<Rightarrow> Some (decode (take (e - ptr) (drop ptr mem))))"

text \<open>A decoder for concrete runs: every byte is the character with that code.\<close>

definition latin1 :: "byte list \<Rightarrow> string" where
  "latin1 bs = map (\<lambda>b. char_of (unat b)) bs"

section \<open>Constants and their dependency order (scripts/generate-bindings.ts)\<close>

text \<open>
  \<^verbatim>\<open>interface Constant { name; value; comment?; dependencies }\<close>. The field
  \<^verbatim>\<open>value\<close> is called \<open>cvalue\<close> here.
\<close>

record Constant =
  name :: string
  cvalue :: string
  comment :: "string option"
  dependencies :: "string list"

text \<open>
  \<^verbatim>\<open>new Map(constants.map((c) => [c.name, c]))\<close>: when a name occurs twice, the later
  entry replaces the earlier one.
\<close>

definition byName :: "Constant list \<Rightarrow> string \<Rightarrow> Constant option" where
  "byName constants = map_of (rev (map (\<lambda>c. (name c, c)) constants))"

text \<open>First pass: a constant with a dependency that is not a key of \<open>byName\<close> is skipped.\<close>

definition firstPass :: "Constant list \<Rightarrow> string set" where
  "firstPass constants =
     fold (\<lambda>c skipped.
             if list_ex (\<lambda>dep. byName constants dep = None) (dependencies c)
             then insert (name c) skipped else skipped)
          constants {}"

text \<open>
  One round of the \<^verbatim>\<open>while (changed)\<close> loop: the \<^verbatim>\<open>for\<close> loop over the constants,
  which updates \<open>skipped\<close> as it goes.
\<close>

definition skipStep :: "Constant \<Rightarrow> string set \<times> bool \<Rightarrow> string set \<times> bool" where
  "skipStep c = (\<lambda>(skipped, changed).
     if name c \<in> skipped then (skipped, changed)
     else if list_ex (\<lambda>dep. dep \<in> skipped) (dependencies c)
          then (insert (name c) skipped, True)
          else (skipped, changed))"

lemma skipStep_mono:
  "skipStep c (s, ch) = (s', ch') \<Longrightarrow>
     s \<subseteq> s' \<and> s' \<subseteq> s \<union> {name c} \<and> (ch \<longrightarrow> ch') \<and> (ch' \<and> \<not> ch \<longrightarrow> s \<subset> s')"
  by (auto simp: skipStep_def split: if_splits)

lemma fold_skipStep_mono:
  "fold skipStep cs (s, ch) = (s', ch') \<Longrightarrow>
     s \<subseteq> s' \<and> s' \<subseteq> s \<union> name ` set cs \<and> (ch \<longrightarrow> ch') \<and> (ch' \<and> \<not> ch \<longrightarrow> s \<subset> s')"
proof (induction cs arbitrary: s ch)
  case Nil
  then show ?case by simp
next
  case (Cons c cs)
  obtain s1 ch1 where step: "skipStep c (s, ch) = (s1, ch1)" by (cases "skipStep c (s, ch)")
  with Cons.prems have rest: "fold skipStep cs (s1, ch1) = (s', ch')" by simp
  from skipStep_mono[OF step] Cons.IH[OF rest] show ?case by auto
qed

function skipLoop :: "Constant list \<Rightarrow> string set \<Rightarrow> string set" where
  "skipLoop constants skipped =
     (case fold skipStep constants (skipped, False) of
        (skipped', changed) \<Rightarrow> if changed then skipLoop constants skipped' else skipped')"
  by pat_completeness auto
termination
proof (relation "measure (\<lambda>(constants, skipped). card (name ` set constants - skipped))")
  show "wf (measure (\<lambda>(constants, skipped). card (name ` set constants - skipped)))" by simp
next
  fix constants :: "Constant list" and skipped x :: "string set \<times> bool" and skipped' changed
  fix sk :: "string set"
  assume a: "(skipped', changed) = fold skipStep constants (sk, False)" "changed"
  from fold_skipStep_mono[OF a(1)[symmetric]] a(2)
  have sub: "sk \<subset> skipped'" "skipped' \<subseteq> sk \<union> name ` set constants" by auto
  have "name ` set constants - skipped' \<subset> name ` set constants - sk"
    using sub by blast
  then have "card (name ` set constants - skipped') < card (name ` set constants - sk)"
    by (intro psubset_card_mono) auto
  then show "((constants, skipped'), (constants, sk))
       \<in> measure (\<lambda>(constants, skipped). card (name ` set constants - skipped))"
    by simp
qed

text \<open>
  The state of the depth-first traversal: the output list \<^verbatim>\<open>sorted\<close> (called
  \<open>sorted_cs\<close> here) and the two sets \<^verbatim>\<open>visited\<close> and \<^verbatim>\<open>inProgress\<close>.
\<close>

record sortState =
  sorted_cs :: "Constant list"
  visited :: "string set"
  inProgress :: "string set"

function visit :: "Constant list \<Rightarrow> string set \<Rightarrow> sortState \<Rightarrow> string \<Rightarrow> sortState"
  and visitDeps :: "Constant list \<Rightarrow> string set \<Rightarrow> sortState \<Rightarrow> string list \<Rightarrow> sortState"
where
  "visit constants skipped st n =
     (if n \<in> visited st then st
      else if n \<in> inProgress st then st
      else if n \<in> skipped then st
      else case byName constants n of
             None \<Rightarrow> st
           | Some c \<Rightarrow>
               (let st2 = visitDeps constants skipped
                            (st\<lparr>inProgress := insert n (inProgress st)\<rparr>) (dependencies c)
                in st2\<lparr>inProgress := inProgress st2 - {n},
                       visited := insert n (visited st2),
                       sorted_cs := sorted_cs st2 @ [c]\<rparr>))"
| "visitDeps constants skipped st [] = st"
| "visitDeps constants skipped st (dep # deps) =
     visitDeps constants skipped
       (if byName constants dep \<noteq> None then visit constants skipped st dep else st) deps"
  by pat_completeness auto

lemma visit_dom_mono:
  "visit_visitDeps_dom (Inl (cs, sk, st, n)) \<Longrightarrow>
     visited st \<union> inProgress st \<subseteq> visited (visit cs sk st n) \<union> inProgress (visit cs sk st n)"
  "visit_visitDeps_dom (Inr (cs, sk, st, ds)) \<Longrightarrow>
     visited st \<union> inProgress st \<subseteq> visited (visitDeps cs sk st ds) \<union> inProgress (visitDeps cs sk st ds)"
proof (induction cs sk st n and cs sk st ds rule: visit_visitDeps.pinduct)
  case (1 cs sk st n)
  show ?case
  proof (cases "n \<in> visited st \<or> n \<in> inProgress st \<or> n \<in> sk \<or> byName cs n = None")
    case True
    then show ?thesis using 1(1) by (auto simp: visit.psimps)
  next
    case False
    then obtain c where c: "byName cs n = Some c" by auto
    let ?st1 = "st\<lparr>inProgress := insert n (inProgress st)\<rparr>"
    let ?st2 = "visitDeps cs sk ?st1 (dependencies c)"
    from False c have ih: "visited ?st1 \<union> inProgress ?st1 \<subseteq> visited ?st2 \<union> inProgress ?st2"
      by (intro 1(2)) auto
    have eq: "visit cs sk st n = ?st2\<lparr>inProgress := inProgress ?st2 - {n},
                       visited := insert n (visited ?st2),
                       sorted_cs := sorted_cs ?st2 @ [c]\<rparr>"
      using False c 1(1) by (simp add: visit.psimps Let_def)
    show ?thesis unfolding eq using ih by auto
  qed
next
  case (2 cs sk st)
  then show ?case by (simp add: visitDeps.psimps)
next
  case (3 cs sk st dep deps)
  show ?case
  proof (cases "byName cs dep \<noteq> None")
    case True
    from 3(2)[OF True] 3(3) True 3(1) show ?thesis by (simp add: visitDeps.psimps) blast
  next
    case False
    with 3(3) 3(1) show ?thesis by (simp add: visitDeps.psimps)
  qed
qed

lemma finite_dom_byName: "finite (dom (byName cs))"
  by (simp add: byName_def finite_dom_map_of)

termination visit
  apply (relation "inv_image (less_than <*lex*> less_than)
      (\<lambda>x. case x of
          Inl (cs, sk, st, n) \<Rightarrow> (card (dom (byName cs) - (visited st \<union> inProgress st)), 0)
        | Inr (cs, sk, st, ds) \<Rightarrow> (card (dom (byName cs) - (visited st \<union> inProgress st)), Suc (length ds)))")
  subgoal by (intro wf_inv_image wf_lex_prod wf_less_than)
  subgoal premises prems for cs sk st n c
  proof -
    from prems have "n \<in> dom (byName cs) - (visited st \<union> inProgress st)" by auto
    then have "dom (byName cs) - (visited st \<union> insert n (inProgress st))
        \<subset> dom (byName cs) - (visited st \<union> inProgress st)" by auto
    then have "card (dom (byName cs) - (visited st \<union> insert n (inProgress st)))
        < card (dom (byName cs) - (visited st \<union> inProgress st))"
      by (intro psubset_card_mono) (auto simp: finite_dom_byName)
    then show ?thesis by simp
  qed
  subgoal by simp
  subgoal premises prems for cs sk st dep deps
  proof (cases "byName cs dep \<noteq> None")
    case True
    with prems have "visit_visitDeps_dom (Inl (cs, sk, st, dep))" by simp
    from visit_dom_mono(1)[OF this]
    have "dom (byName cs) - (visited (visit cs sk st dep) \<union> inProgress (visit cs sk st dep))
        \<subseteq> dom (byName cs) - (visited st \<union> inProgress st)" by auto
    then have "card (dom (byName cs) - (visited (visit cs sk st dep) \<union> inProgress (visit cs sk st dep)))
        \<le> card (dom (byName cs) - (visited st \<union> inProgress st))"
      by (intro card_mono) (auto simp: finite_dom_byName)
    with True show ?thesis by auto
  next
    case False
    then show ?thesis by simp
  qed
  done

text \<open>
  \<^verbatim>\<open>topologicalSort\<close>: the two passes that compute \<open>skipped\<close>, then the traversal
  from every constant that is not skipped, in input order.
\<close>

definition emptyState :: sortState where
  "emptyState = \<lparr>sorted_cs = [], visited = {}, inProgress = {}\<rparr>"

definition topologicalSort :: "Constant list \<Rightarrow> Constant list" where
  "topologicalSort constants =
     (let skipped = skipLoop constants (firstPass constants)
      in sorted_cs
           (fold (\<lambda>c st. if name c \<notin> skipped then visit constants skipped st (name c) else st)
                 constants emptyState))"

subsection \<open>Categories and the constants document\<close>

text \<open>
  \<^verbatim>\<open>name.startsWith(p)\<close> is \<open>prefix p name\<close>; a match of \<^verbatim>\<open>/^SE_(A|B|...)$/\<close> is
  membership of the name in the list of the alternatives, each after \<^verbatim>\<open>SE_\<close>.
\<close>

definition seAlt :: "string list \<Rightarrow> string \<Rightarrow> bool" where
  "seAlt alts n = (n \<in> set (map (\<lambda>a. ''SE_'' @ a) alts))"

definition categorizeConstant :: "string \<Rightarrow> string" where
  "categorizeConstant n =
    (if prefix ''SE_SIDM_'' n then ''AYANAMSA''
     else if prefix ''SEFLG_'' n then ''CALC_FLAGS''
     else if prefix ''SE_SIDBIT_'' n \<or> n = ''SE_SIDBITS'' then ''SIDEREAL_BITS''
     else if prefix ''SE_ECL_'' n then ''ECLIPSE''
     else if prefix ''SE_CALC_'' n \<or> prefix ''SE_BIT_'' n then ''RISE_TRANSIT''
     else if prefix ''SE_HELFLAG_'' n \<or> prefix ''SE_HELIACAL'' n \<or> prefix ''SE_MORNING_'' n \<or>
             prefix ''SE_EVENING_'' n \<or> prefix ''SE_ACRONYCHAL'' n \<or> prefix ''SE_COSMICAL'' n
          then ''HELIACAL''
     else if prefix ''SE_NODBIT_'' n then ''NODE_APSIDES''
     else if prefix ''SE_SPLIT_DEG_'' n then ''SPLIT_DEG''
     else if prefix ''SE_TIDAL_'' n then ''TIDAL''
     else if prefix ''SE_MODEL_'' n \<or> prefix ''NSE_MODEL'' n then ''MODELS''
     else if prefix ''SEMOD_'' n then ''MODEL_VALUES''
     else if prefix ''SE_AUNIT_'' n then ''UNITS''
     else if seAlt
            [''SUN'', ''MOON'', ''MERCURY'', ''VENUS'', ''MARS'', ''JUPITER'', ''SATURN'',
             ''URANUS'', ''NEPTUNE'', ''PLUTO'', ''MEAN_NODE'', ''TRUE_NODE'',
             ''MEAN_APOG'', ''OSCU_APOG'', ''EARTH'', ''CHIRON'', ''PHOLUS'', ''CERES'',
             ''PALLAS'', ''JUNO'', ''VESTA'', ''INTP_'', ''NPLANETS'', ''ECL_NUT''] n
          then ''PLANETS''
     else if seAlt
            [''CUPIDO'', ''HADES'', ''ZEUS'', ''KRONOS'', ''APOLLON'', ''ADMETOS'',
             ''VULKANUS'', ''POSEIDON'', ''ISIS'', ''NIBIRU'', ''HARRINGTON'',
             ''NEPTUNE_LEVERRIER'', ''NEPTUNE_ADAMS'', ''PLUTO_LOWELL'',
             ''PLUTO_PICKERING'', ''VULCAN'', ''WHITE_MOON'', ''PROSERPINA'', ''WALDEMATH''] n
          then ''FICTITIOUS_PLANETS''
     else if seAlt
            [''ASC'', ''MC'', ''ARMC'', ''VERTEX'', ''EQUASC'', ''COASC1'', ''COASC2'',
             ''POLASC'', ''NASCMC''] n
          then ''HOUSE_POINTS''
     else if seAlt
            [''JUL_CAL'', ''GREG_CAL''] n
          then ''CALENDAR''
     else if seAlt
            [''FICT_OFFSET'', ''FICT_OFFSET_1'', ''FICT_MAX'', ''AST_OFFSET'',
             ''PLMOON_OFFSET'', ''COMET_OFFSET'', ''NALL_NAT_POINTS'', ''NFICT_ELEM'',
             ''VARUNA''] n
          then ''OFFSETS''
     else if seAlt
            [''TRUE_TO_APP'', ''APP_TO_TRUE''] n
          then ''REFRACTION''
     else if seAlt
            [''ECL2HOR'', ''EQU2HOR'', ''HOR2ECL'', ''HOR2EQU''] n
          then ''COORDINATE_TRANSFORM''
     else if seAlt
            [''PHOTOPIC_FLAG'', ''SCOTOPIC_FLAG'', ''MIXEDOPIC_FLAG''] n
          then ''OPTIC''
     else if n = ''SE_FIXSTAR'' \<or> n = ''SE_MAX_STNAME'' then ''FIXSTAR''
     else if n = ''SE_DELTAT_AUTOMATIC'' then ''DELTAT''
     else ''OTHER'')"

definition groupOrder :: "string list" where
  "groupOrder =
     [''CALENDAR'', ''PLANETS'', ''FICTITIOUS_PLANETS'', ''OFFSETS'', ''HOUSE_POINTS'',
      ''CALC_FLAGS'', ''SIDEREAL_BITS'', ''AYANAMSA'', ''NODE_APSIDES'', ''ECLIPSE'',
      ''RISE_TRANSIT'', ''COORDINATE_TRANSFORM'', ''REFRACTION'', ''HELIACAL'', ''OPTIC'',
      ''SPLIT_DEG'', ''TIDAL'', ''DELTAT'', ''MODELS'', ''MODEL_VALUES'', ''UNITS'',
      ''FIXSTAR'', ''OTHER'']"

text \<open>
  \<^verbatim>\<open>groups[prefix].push(c)\<close> for every sorted constant: a dictionary from category to
  the constants of that category, in sorted order.
\<close>

definition addToGroup :: "Constant \<Rightarrow> (string \<rightharpoonup> Constant list) \<Rightarrow> (string \<rightharpoonup> Constant list)" where
  "addToGroup c groups =
     (let g = categorizeConstant (name c)
      in groups(g \<mapsto> (case groups g of None \<Rightarrow> [] | Some cs \<Rightarrow> cs) @ [c]))"

definition groupsOf :: "Constant list \<Rightarrow> (string \<rightharpoonup> Constant list)" where
  "groupsOf srt = fold addToGroup srt Map.empty"

text \<open>\<^verbatim>\<open>xs.join(sep)\<close> and \<^verbatim>\<open>group.replace(/_/g, " ")\<close>.\<close>

fun join :: "string \<Rightarrow> string list \<Rightarrow> string" where
  "join sep [] = []"
| "join sep [x] = x"
| "join sep (x # y # ys) = x @ sep @ join sep (y # ys)"

definition underscoresToSpaces :: "string \<Rightarrow> string" where
  "underscoresToSpaces s = map (\<lambda>ch. if ch = CHR ''_'' then CHR '' '' else ch) s"

definition constLine :: "Constant \<Rightarrow> string" where
  "constLine c =
     ''export const '' @ name c @ '' = '' @ cvalue c @ '';'' @
     (case comment c of
        None \<Rightarrow> []
      | Some t \<Rightarrow> if t = [] then [] else '' // '' @ t)"

definition groupLines :: "(string \<rightharpoonup> Constant list) \<Rightarrow> string \<Rightarrow> string list" where
  "groupLines groups g =
     (case groups g of
        None \<Rightarrow> []
      | Some cs \<Rightarrow>
          if cs = [] then []
          else [''// '' @ underscoresToSpaces g] @ map constLine cs @ [[]])"

definition constantsHeader :: "string list" where
  "constantsHeader =
     [''/**'', '' * Swiss Ephemeris Constants'',
      '' * Auto-generated from swephexp.h - DO NOT EDIT'', '' */'', []]"

definition generateConstantsLines :: "Constant list \<Rightarrow> string list" where
  "generateConstantsLines constants =
     (let groups = groupsOf (topologicalSort constants)
      in constantsHeader @ concat (map (groupLines groups) groupOrder))"

definition generateConstants :: "Constant list \<Rightarrow> string" where
  "generateConstants constants = join [CHR 0x0A] (generateConstantsLines constants)"

text \<open>
  The constants in the order in which the document defines them: the members of each
  group, the groups in the order of \<open>groupOrder\<close>.
\<close>

definition emittedConstants :: "Constant list \<Rightarrow> Constant list" where
  "emittedConstants constants =
     (let groups = groupsOf (topologicalSort constants)
      in concat (map (\<lambda>g. case groups g of None \<Rightarrow> [] | Some cs \<Rightarrow> cs) groupOrder))"


text \<open>
  The dependency relation of an input: \<open>(n, d)\<close> when a constant named \<open>n\<close> lists
  \<open>d\<close> among its dependencies. \<open>dependsOn\<close> is the same relation between the constants
  of the input themselves.
\<close>

definition depRel :: "Constant list \<Rightarrow> (string \<times> string) set" where
  "depRel constants = {(name c, d) | c d. c \<in> set constants \<and> d \<in> set (dependencies c)}"

definition dependsOn :: "Constant list \<Rightarrow> (Constant \<times> Constant) set" where
  "dependsOn constants =
     {(y, x). y \<in> set constants \<and> x \<in> set constants \<and> name x \<in> set (dependencies y)}"

text \<open>Inputs for concrete runs.\<close>

definition mkConst :: "string \<Rightarrow> string \<Rightarrow> string list \<Rightarrow> Constant" where
  "mkConst n v ds = \<lparr>name = n, cvalue = v, comment = None, dependencies = ds\<rparr>"

declare visit.simps [simp del]

text \<open>
  Predicates for the traversal. \<open>settledAt cs sk xs c\<close>: every dependency of \<open>c\<close> is named
  in \<open>xs\<close> (the output before \<open>c\<close>), or reaches \<open>c\<close> in the dependency relation (it is on a
  cycle through \<open>c\<close>), or is skipped, or is not a key of \<open>byName\<close>.
\<close>

definition settledAt :: "Constant list \<Rightarrow> string set \<Rightarrow> Constant list \<Rightarrow> Constant \<Rightarrow> bool" where
  "settledAt cs sk xs c \<longleftrightarrow>
     (\<forall>d\<in>set (dependencies c).
        d \<in> name ` set xs \<or> (d, name c) \<in> (depRel cs)\<^sup>* \<or> d \<in> sk \<or> byName cs d = None)"

definition settled :: "Constant list \<Rightarrow> string set \<Rightarrow> Constant list \<Rightarrow> bool" where
  "settled cs sk xs \<longleftrightarrow> (\<forall>i<length xs. settledAt cs sk (take i xs) (xs ! i))"

text \<open>The invariant of the traversal state, and what a call of \<open>visit\<close> establishes.\<close>

definition sortInv :: "Constant list \<Rightarrow> string set \<Rightarrow> sortState \<Rightarrow> bool" where
  "sortInv cs sk st \<longleftrightarrow>
     settled cs sk (sorted_cs st) \<and> name ` set (sorted_cs st) = visited st \<and>
     (\<forall>c\<in>set (sorted_cs st). byName cs (name c) = Some c \<and> name c \<notin> sk) \<and>
     distinct (map name (sorted_cs st)) \<and> visited st \<inter> inProgress st = {}"

definition visitPost :: "Constant list \<Rightarrow> string set \<Rightarrow> sortState \<Rightarrow> sortState \<Rightarrow> string list \<Rightarrow> bool" where
  "visitPost cs sk st st' ns \<longleftrightarrow>
     sortInv cs sk st' \<and> inProgress st' = inProgress st \<and> visited st \<subseteq> visited st' \<and>
     (\<forall>n\<in>set ns. n \<in> visited st' \<or> n \<in> inProgress st \<or> n \<in> sk \<or> byName cs n = None)"







definition badC :: Constant where "badC = mkConst ''X_BAD'' ''(MISSING + 1)'' [''MISSING'']"

definition usesBadC :: Constant where "usesBadC = mkConst ''Y_DEP'' ''X_BAD'' [''X_BAD'']"

definition fineC :: Constant where "fineC = mkConst ''Z_OK'' ''1'' []"

section \<open>Routine declarations: parameter lists (scripts/generate-bindings.ts)\<close>

text \<open>
  Strings are lists of characters with codes below 256. In that range the class
  \<^verbatim>\<open>\s\<close> of a regular expression, which is also what \<^verbatim>\<open>trim\<close> removes, holds the
  codes 9 to 13, 32 and 160.
\<close>

definition isSpace :: "char \<Rightarrow> bool" where
  "isSpace c = (of_char c \<in> {9, 10, 11, 12, 13, 32, 160 :: nat})"

definition trim :: "string \<Rightarrow> string" where
  "trim s = rev (dropWhile isSpace (rev (dropWhile isSpace s)))"

text \<open>\<^verbatim>\<open>s.split(",")\<close>: every occurrence of the separator ends a piece.\<close>

fun splitOn :: "char \<Rightarrow> string \<Rightarrow> string list" where
  "splitOn sep [] = [[]]"
| "splitOn sep (c # cs) =
     (if c = sep then [] # splitOn sep cs
      else case splitOn sep cs of
             [] \<Rightarrow> [[c]]
           | p # ps \<Rightarrow> (c # p) # ps)"

text \<open>\<^verbatim>\<open>param.replace(/^const\s+/, "")\<close>\<close>

definition stripConst :: "string \<Rightarrow> string" where
  "stripConst s =
     (if prefix ''const'' s \<and> (case drop 5 s of [] \<Rightarrow> False | c # _ \<Rightarrow> isSpace c)
      then dropWhile isSpace (drop 5 s) else s)"

text \<open>
  \<^verbatim>\<open>cleaned.replace(/\s*\*\s*/g, " ")\<close>: a star, with the white space on both sides of
  it, becomes one blank. White space that no star follows stays as it is.
\<close>

function replaceStars :: "string \<Rightarrow> string" where
  "replaceStars s =
     (if s = [] then []
      else case dropWhile isSpace s of
             [] \<Rightarrow> s
           | c # cs \<Rightarrow>
               if c = CHR ''*'' then CHR '' '' # replaceStars (dropWhile isSpace cs)
               else takeWhile isSpace s @ c # replaceStars cs)"
  by pat_completeness auto
termination
proof (relation "measure length")
  show "wf (measure length)" by simp
next
  fix s :: string and c cs
  assume a: "dropWhile isSpace s = c # cs"
  have "length (dropWhile isSpace s) \<le> length s" by (rule length_dropWhile_le)
  with a have l: "length cs < length s" by simp
  have "length (dropWhile isSpace cs) \<le> length cs" by (rule length_dropWhile_le)
  with l show "(dropWhile isSpace cs, s) \<in> measure length" by simp
  from l show "(cs, s) \<in> measure length" by simp
qed

text \<open>\<^verbatim>\<open>cleaned.split(/\s+/)\<close>: a piece ends at every run of white space.\<close>

function splitWs :: "string \<Rightarrow> string list" where
  "splitWs s =
     (case dropWhile (\<lambda>c. \<not> isSpace c) s of
        [] \<Rightarrow> [s]
      | c # cs \<Rightarrow> takeWhile (\<lambda>c. \<not> isSpace c) s # splitWs (dropWhile isSpace cs))"
  by pat_completeness auto
termination
proof (relation "measure length")
  show "wf (measure length)" by simp
next
  fix s :: string and c cs
  assume a: "dropWhile (\<lambda>c. \<not> isSpace c) s = c # cs"
  have "length (dropWhile (\<lambda>c. \<not> isSpace c) s) \<le> length s" by (rule length_dropWhile_le)
  with a have l: "length cs < length s" by simp
  have "length (dropWhile isSpace cs) \<le> length cs" by (rule length_dropWhile_le)
  with l show "(dropWhile isSpace cs, s) \<in> measure length" by simp
qed

text \<open>Numbers in template strings: the decimal digits of a natural number.\<close>

definition digitChar :: "nat \<Rightarrow> char" where
  "digitChar d = char_of (48 + d)"

function showNat :: "nat \<Rightarrow> string" where
  "showNat n = (if n < 10 then [digitChar n] else showNat (n div 10) @ [digitChar (n mod 10)])"
  by pat_completeness auto
termination
  by (relation "measure id") auto

text \<open>
  \<^verbatim>\<open>interface FunctionParam { type; name; isPointer }\<close>, with the fields \<open>ptype\<close> and
  \<open>pname\<close>.
\<close>

record FunctionParam =
  ptype :: string
  pname :: string
  isPointer :: bool

text \<open>
  The tokens of one piece of the parameter list: \<^verbatim>\<open>parts\<close> in the source, computed from
  the piece after \<^verbatim>\<open>const\<close> is dropped.
\<close>

definition paramParts :: "string \<Rightarrow> string list" where
  "paramParts cleaned = filter (\<lambda>p. p \<noteq> []) (splitWs (replaceStars cleaned))"

text \<open>The body of the loop over the pieces; \<open>params\<close> is the list built so far.\<close>

definition parseParam :: "FunctionParam list \<Rightarrow> string \<Rightarrow> FunctionParam list" where
  "parseParam params param =
     (if param = [] then params
      else
        let cleaned = stripConst param;
            isPtr = (CHR ''*'' \<in> set cleaned);
            parts = paramParts cleaned
        in if length parts \<ge> 2
           then params @ [\<lparr>ptype = join '' '' (butlast parts), pname = last parts, isPointer = isPtr\<rparr>]
           else if length parts = 1
           then params @ [\<lparr>ptype = parts ! 0, pname = ''arg'' @ showNat (length params),
                            isPointer = isPtr\<rparr>]
           else params)"

definition parseParams :: "string \<Rightarrow> FunctionParam list" where
  "parseParams paramsStr =
     (if paramsStr = ''void'' \<or> paramsStr = [] then []
      else foldl parseParam [] (map trim (splitOn CHR '','' paramsStr)))"



declare replaceStars.simps [simp del] splitWs.simps [simp del] showNat.simps [simp del]


section \<open>Constant values and their dependencies (scripts/generate-bindings.ts)\<close>






subsection \<open>findDependencies\<close>








subsection \<open>parseConstantValue\<close>


















subsection \<open>Tokens, in the words of the specification\<close>





section \<open>Routine configuration and the wrapper synthesizer (scripts/generate-bindings.ts)\<close>

text \<open>
  \<^verbatim>\<open>interface FunctionDecl { returnType; name; params }\<close>, with the fields
  \<open>fnReturnType\<close> and \<open>fname\<close>.
\<close>

record FunctionDecl =
  fnReturnType :: string
  fname :: string
  params :: "FunctionParam list"

text \<open>
  \<^verbatim>\<open>type OutputType\<close>: the tag \<^verbatim>\<open>type\<close> with \<^verbatim>\<open>count\<close> or \<^verbatim>\<open>size\<close>, and the optional
  \<^verbatim>\<open>name\<close> of the four numeric variants.
\<close>

datatype OutputType =
    Float64 "string option"
  | Float64Array nat "string option"
  | Int32 "string option"
  | Int32Array nat "string option"
  | StringBuf nat
  | ErrorBuf nat

datatype ReturnMode = RVoid | RNumber | RCheckError | RCheckNegative

text \<open>
  \<^verbatim>\<open>interface FunctionConfig\<close>; every field is optional. \<open>outputs\<close> is the list of the
  entries of the \<^verbatim>\<open>Record\<close>, in the order in which \<^verbatim>\<open>Object.entries\<close> yields them; a
  lookup \<^verbatim>\<open>outputs[p.name]\<close> is \<open>map_of\<close> on it (parameter names are taken not to be names
  of properties that every object inherits).
\<close>

record FunctionConfig =
  friendlyName :: "string option"
  outputs :: "(string \<times> OutputType) list option"
  inputStrings :: "string list option"
  returnType :: "ReturnMode option"
  skip :: bool
  description :: "string option"
  resultType :: "string option"

definition typeTag :: "OutputType \<Rightarrow> string" where
  "typeTag t =
     (case t of
        Float64 _ \<Rightarrow> ''float64''
      | Float64Array _ _ \<Rightarrow> ''float64[]''
      | Int32 _ \<Rightarrow> ''int32''
      | Int32Array _ _ \<Rightarrow> ''int32[]''
      | StringBuf _ \<Rightarrow> ''string''
      | ErrorBuf _ \<Rightarrow> ''error'')"

definition isError :: "OutputType \<Rightarrow> bool" where
  "isError t = (case t of ErrorBuf _ \<Rightarrow> True | _ \<Rightarrow> False)"

text \<open>\<^verbatim>\<open>(type as any).name\<close>\<close>

definition typeName :: "OutputType \<Rightarrow> string option" where
  "typeName t =
     (case t of
        Float64 n \<Rightarrow> n
      | Float64Array _ n \<Rightarrow> n
      | Int32 n \<Rightarrow> n
      | Int32Array _ n \<Rightarrow> n
      | StringBuf _ \<Rightarrow> None
      | ErrorBuf _ \<Rightarrow> None)"

text \<open>\<^verbatim>\<open>a || b\<close> on an optional string: an absent or empty \<open>a\<close> gives way to \<open>b\<close>.\<close>

definition orElse :: "string option \<Rightarrow> string \<Rightarrow> string" where
  "orElse a b = (case a of None \<Rightarrow> b | Some s \<Rightarrow> if s = [] then b else s)"

definition truthy :: "string option \<Rightarrow> bool" where
  "truthy a = (case a of None \<Rightarrow> False | Some s \<Rightarrow> s \<noteq> [])"

text \<open>\<^verbatim>\<open>s.replace(pat, "")\<close> with a string pattern: the first occurrence is removed.\<close>

fun removeFirst :: "string \<Rightarrow> string \<Rightarrow> string" where
  "removeFirst pat [] = []"
| "removeFirst pat (c # cs) =
     (if prefix pat (c # cs) then drop (length pat) (c # cs) else c # removeFirst pat cs)"

text \<open>\<^verbatim>\<open>getOutputSize\<close>: the text of the size, and the number of bytes it denotes.\<close>

definition getOutputSize :: "OutputType \<Rightarrow> string" where
  "getOutputSize t =
     (case t of
        Float64 _ \<Rightarrow> ''8''
      | Float64Array n _ \<Rightarrow> showNat n @ '' * 8''
      | Int32 _ \<Rightarrow> ''4''
      | Int32Array n _ \<Rightarrow> showNat n @ '' * 4''
      | StringBuf n \<Rightarrow> showNat n
      | ErrorBuf n \<Rightarrow> showNat n)"

definition outputBytes :: "OutputType \<Rightarrow> nat" where
  "outputBytes t =
     (case t of
        Float64 _ \<Rightarrow> 8
      | Float64Array n _ \<Rightarrow> n * 8
      | Int32 _ \<Rightarrow> 4
      | Int32Array n _ \<Rightarrow> n * 4
      | StringBuf n \<Rightarrow> n
      | ErrorBuf n \<Rightarrow> n)"

subsection \<open>The signature\<close>

definition tsTypeOf :: "OutputType \<Rightarrow> string" where
  "tsTypeOf t =
     (case t of
        Float64Array _ _ \<Rightarrow> ''number[]''
      | Int32Array _ _ \<Rightarrow> ''number[]''
      | StringBuf _ \<Rightarrow> ''string''
      | _ \<Rightarrow> ''number'')"

definition inferResultType :: "FunctionConfig \<Rightarrow> (string \<times> OutputType) list \<Rightarrow> string" where
  "inferResultType config outs =
     (if truthy (resultType config) then orElse (resultType config) []
      else
        let outputEntries = filter (\<lambda>(n, t). \<not> isError t) outs
        in case outputEntries of
             [(n, t)] \<Rightarrow> tsTypeOf t
           | _ \<Rightarrow> ''{ '' @ join ''; '' (map (\<lambda>(n, t). orElse (typeName t) n @ '': '' @ tsTypeOf t)
                                           outputEntries) @ '' }'')"

definition buildSignature ::
  "FunctionParam list \<Rightarrow> string list \<Rightarrow> FunctionConfig \<Rightarrow> ReturnMode \<Rightarrow>
   (string \<times> OutputType) list \<Rightarrow> string" where
  "buildSignature inputParams inStrings config retMode outs =
     (let ps = map (\<lambda>p. if pname p \<in> set inStrings then pname p @ '': string''
                        else if pname p = ''hsys'' then pname p @ '': number | string''
                        else pname p @ '': number'') inputParams;
          resType =
            (case retMode of
               RNumber \<Rightarrow> if outs = [] then ''number'' else inferResultType config outs
             | RCheckNegative \<Rightarrow> inferResultType config outs
             | RCheckError \<Rightarrow> inferResultType config outs
             | RVoid \<Rightarrow> if outs \<noteq> [] then inferResultType config outs else ''void'')
      in ''('' @ join '', '' ps @ ''): '' @ resType)"

subsection \<open>The statements of a wrapper\<close>

text \<open>
  \<^verbatim>\<open>outputReads\<close>: one entry for every output, with the name of the variable that holds
  its address.
\<close>

record OutputRead =
  param :: string
  otype :: OutputType
  varName :: string

datatype ReadFn = GetInt32 | GetFloat64

text \<open>
  The result constructions that \<^verbatim>\<open>buildReturnValue\<close> can emit. Each one stands for the
  lines that \<open>renderShape\<close> gives for it.
\<close>

datatype ResultShape =
    NoResult
  | ReturnRet
  | PlanetPositionShape string
  | FieldsShape "(string \<times> ReadFn \<times> string) list"
  | HouseShape string string
  | HouseSpeedShape string string "string option" "string option"
  | JulianDayShape string
  | AzimuthAltitudeShape string
  | PhenomenaShape string
  | NodesApsidesShape
  | OrbitalElementsShape string
  | EclipseTimeShape string "string option"
  | EclipseWhereShape string string
  | EclipseAttributesShape string
  | SingleShape OutputType string
  | MultiShape "(string \<times> OutputType \<times> string) list"

definition findOutput :: "string \<Rightarrow> OutputRead list \<Rightarrow> OutputRead option" where
  "findOutput n reads = find (\<lambda>r. param r = n) reads"

definition fieldOf :: "OutputRead \<Rightarrow> string \<times> ReadFn \<times> string" where
  "fieldOf r =
     (orElse (typeName (otype r)) (param r),
      (case otype r of Int32 _ \<Rightarrow> GetInt32 | _ \<Rightarrow> GetFloat64),
      varName r)"

text \<open>
  The decisions of \<^verbatim>\<open>buildReturnValue\<close>, in the order of the source. A named result type
  whose outputs are not found falls through to the generic handling at the end.
\<close>

definition genericShape :: "OutputRead list \<Rightarrow> ResultShape" where
  "genericShape nonErrorOutputs =
     (case nonErrorOutputs of
        [r] \<Rightarrow> SingleShape (otype r) (varName r)
      | _ \<Rightarrow> MultiShape (map (\<lambda>r. (orElse (typeName (otype r)) (param r), otype r, varName r))
                             nonErrorOutputs))"

definition buildReturnShape :: "OutputRead list \<Rightarrow> FunctionConfig \<Rightarrow> ReturnMode \<Rightarrow> ResultShape" where
  "buildReturnShape outputReads config retMode =
     (let nonErrorOutputs = filter (\<lambda>r. \<not> isError (otype r)) outputReads;
          rt = resultType config;
          generic = genericShape nonErrorOutputs
      in
      if nonErrorOutputs = [] then (if retMode \<noteq> RVoid then ReturnRet else NoResult)
      else if rt = Some ''PlanetPosition'' then
        (case find (\<lambda>r. param r = ''xx'' \<or> param r = ''xxret'') outputReads of
           Some xx \<Rightarrow> PlanetPositionShape (varName xx)
         | None \<Rightarrow> generic)
      else if rt = Some ''DateComponents'' \<or> rt = Some ''UtcComponents'' \<or> rt = Some ''SplitDegrees''
        then FieldsShape (map fieldOf nonErrorOutputs)
      else if rt = Some ''HouseResult'' then
        (case (findOutput ''cusps'' outputReads, findOutput ''ascmc'' outputReads) of
           (Some c, Some a) \<Rightarrow> HouseShape (varName c) (varName a)
         | _ \<Rightarrow> generic)
      else if rt = Some ''HouseResultWithSpeed'' then
        (case (findOutput ''cusps'' outputReads, findOutput ''ascmc'' outputReads) of
           (Some c, Some a) \<Rightarrow>
             HouseSpeedShape (varName c) (varName a)
               (map_option varName (findOutput ''cusp_speed'' outputReads))
               (map_option varName (findOutput ''ascmc_speed'' outputReads))
         | _ \<Rightarrow> generic)
      else if rt = Some ''JulianDayResult'' then
        (case findOutput ''dret'' outputReads of
           Some d \<Rightarrow> JulianDayShape (varName d) | None \<Rightarrow> generic)
      else if rt = Some ''AzimuthAltitude'' then
        (case findOutput ''xaz'' outputReads of
           Some x \<Rightarrow> AzimuthAltitudeShape (varName x) | None \<Rightarrow> generic)
      else if rt = Some ''PhenomenaResult'' then
        (case findOutput ''attr'' outputReads of
           Some a \<Rightarrow> PhenomenaShape (varName a) | None \<Rightarrow> generic)
      else if rt = Some ''NodesApsidesResult'' then NodesApsidesShape
      else if rt = Some ''OrbitalElements'' then
        (case findOutput ''dret'' outputReads of
           Some d \<Rightarrow> OrbitalElementsShape (varName d) | None \<Rightarrow> generic)
      else if rt = Some ''EclipseTimeResult'' then
        (case findOutput ''tret'' outputReads of
           Some t \<Rightarrow> EclipseTimeShape (varName t) (map_option varName (findOutput ''attr'' outputReads))
         | None \<Rightarrow> generic)
      else if rt = Some ''EclipseWhereResult'' then
        (case (findOutput ''geopos'' outputReads, findOutput ''attr'' outputReads) of
           (Some g, Some a) \<Rightarrow> EclipseWhereShape (varName g) (varName a)
         | _ \<Rightarrow> generic)
      else if rt = Some ''EclipseAttributes'' then
        (case findOutput ''attr'' outputReads of
           Some a \<Rightarrow> EclipseAttributesShape (varName a) | None \<Rightarrow> generic)
      else generic)"

text \<open>The lines of \<^verbatim>\<open>buildReturnValue\<close> for each result construction.\<close>

definition readFnName :: "ReadFn \<Rightarrow> string" where
  "readFnName f = (case f of GetInt32 \<Rightarrow> ''getInt32'' | GetFloat64 \<Rightarrow> ''getFloat64'')"

definition houseFieldLines :: "string \<Rightarrow> string list" where
  "houseFieldLines indent =
     [indent @ ''  ascendant: ascmc[0],'',
      indent @ ''  mc: ascmc[1],'',
      indent @ ''  armc: ascmc[2],'',
      indent @ ''  vertex: ascmc[3],'',
      indent @ ''  equatorialAscendant: ascmc[4],'',
      indent @ ''  coAscendantKoch: ascmc[5],'',
      indent @ ''  coAscendantMunkasey: ascmc[6],'',
      indent @ ''  polarAscendant: ascmc[7],'']"

definition multiFieldLine :: "string \<Rightarrow> string \<times> OutputType \<times> string \<Rightarrow> string list" where
  "multiFieldLine indent = (\<lambda>(propName, t, v).
     case t of
       Float64 _ \<Rightarrow> [indent @ ''  '' @ propName @ '': mem.getFloat64('' @ v @ ''),'']
     | Int32 _ \<Rightarrow> [indent @ ''  '' @ propName @ '': mem.getInt32('' @ v @ ''),'']
     | StringBuf _ \<Rightarrow> [indent @ ''  '' @ propName @ '': mem.getString('' @ v @ ''),'']
     | Float64Array n _ \<Rightarrow>
         [indent @ ''  '' @ propName @ '': mem.getFloat64Array('' @ v @ '', '' @ showNat n @ ''),'']
     | _ \<Rightarrow> [])"

definition renderShape :: "string \<Rightarrow> ResultShape \<Rightarrow> string list" where
  "renderShape indent shape =
     (case shape of
        NoResult \<Rightarrow> []
      | ReturnRet \<Rightarrow> [indent @ ''return ret;'']
      | PlanetPositionShape v \<Rightarrow>
          [indent @ ''const xx = mem.getFloat64Array('' @ v @ '', 6);'',
           indent @ ''return {'',
           indent @ ''  longitude: xx[0],'',
           indent @ ''  latitude: xx[1],'',
           indent @ ''  distance: xx[2],'',
           indent @ ''  longitudeSpeed: xx[3],'',
           indent @ ''  latitudeSpeed: xx[4],'',
           indent @ ''  distanceSpeed: xx[5],'',
           indent @ ''};'']
      | FieldsShape fs \<Rightarrow>
          [indent @ ''return {''] @
          map (\<lambda>(propName, f, v).
                 indent @ ''  '' @ propName @ '': mem.'' @ readFnName f @ ''('' @ v @ ''),'') fs @
          [indent @ ''};'']
      | HouseShape c a \<Rightarrow>
          [indent @ ''const cusps = mem.getFloat64Array('' @ c @ '', 13);'',
           indent @ ''const ascmc = mem.getFloat64Array('' @ a @ '', 10);'',
           indent @ ''return {'',
           indent @ ''  cusps: cusps.slice(1), // cusps[0] is unused''] @
          houseFieldLines indent @
          [indent @ ''};'']
      | HouseSpeedShape c a cs as \<Rightarrow>
          [indent @ ''const cusps = mem.getFloat64Array('' @ c @ '', 13);'',
           indent @ ''const ascmc = mem.getFloat64Array('' @ a @ '', 10);''] @
          (case cs of None \<Rightarrow> []
           | Some v \<Rightarrow> [indent @ ''const cuspSpeeds = mem.getFloat64Array('' @ v @ '', 13);'']) @
          (case as of None \<Rightarrow> []
           | Some v \<Rightarrow> [indent @ ''const ascmcSpeeds = mem.getFloat64Array('' @ v @ '', 10);'']) @
          [indent @ ''return {'',
           indent @ ''  cusps: cusps.slice(1),''] @
          houseFieldLines indent @
          (case cs of None \<Rightarrow> [] | Some v \<Rightarrow> [indent @ ''  cuspSpeeds: cuspSpeeds.slice(1),'']) @
          (case as of None \<Rightarrow> [] | Some v \<Rightarrow> [indent @ ''  ascmcSpeeds: Array.from(ascmcSpeeds),'']) @
          [indent @ ''};'']
      | JulianDayShape v \<Rightarrow>
          [indent @ ''const dret = mem.getFloat64Array('' @ v @ '', 2);'',
           indent @ ''return { et: dret[0], ut: dret[1] };'']
      | AzimuthAltitudeShape v \<Rightarrow>
          [indent @ ''const xaz = mem.getFloat64Array('' @ v @ '', 3);'',
           indent @ ''return { azimuth: xaz[0], trueAltitude: xaz[1], apparentAltitude: xaz[2] };'']
      | PhenomenaShape v \<Rightarrow>
          [indent @ ''const attr = mem.getFloat64Array('' @ v @ '', 20);'',
           indent @ ''return {'',
           indent @ ''  phaseAngle: attr[0],'',
           indent @ ''  phase: attr[1],'',
           indent @ ''  elongation: attr[2],'',
           indent @ ''  apparentDiameter: attr[3],'',
           indent @ ''  apparentMagnitude: attr[4],'',
           indent @ ''};'']
      | NodesApsidesShape \<Rightarrow>
          [indent @ ''const xnasc = mem.getFloat64Array(xnascPtr, 6);'',
           indent @ ''const xndsc = mem.getFloat64Array(xndscPtr, 6);'',
           indent @ ''const xperi = mem.getFloat64Array(xperiPtr, 6);'',
           indent @ ''const xaphe = mem.getFloat64Array(xaphePtr, 6);'',
           indent @ ''const toPos = (arr: number[]): PlanetPosition => ({'',
           indent @ ''  longitude: arr[0], latitude: arr[1], distance: arr[2],'',
           indent @ ''  longitudeSpeed: arr[3], latitudeSpeed: arr[4], distanceSpeed: arr[5],'',
           indent @ ''});'',
           indent @ ''return {'',
           indent @ ''  ascendingNode: toPos(Array.from(xnasc)),'',
           indent @ ''  descendingNode: toPos(Array.from(xndsc)),'',
           indent @ ''  perihelion: toPos(Array.from(xperi)),'',
           indent @ ''  aphelion: toPos(Array.from(xaphe)),'',
           indent @ ''};'']
      | OrbitalElementsShape v \<Rightarrow>
          [indent @ ''return { elements: mem.getFloat64Array('' @ v @ '', 50) };'']
      | EclipseTimeShape t a \<Rightarrow>
          [indent @ ''const times = mem.getFloat64Array('' @ t @ '', 10);''] @
          (case a of
             Some v \<Rightarrow>
               [indent @ ''const attributes = mem.getFloat64Array('' @ v @ '', 20);'',
                indent @ ''return { times: Array.from(times), attributes: Array.from(attributes) };'']
           | None \<Rightarrow> [indent @ ''return { times: Array.from(times) };''])
      | EclipseWhereShape g a \<Rightarrow>
          [indent @ ''return {'',
           indent @ ''  geopos: mem.getFloat64Array('' @ g @ '', 10),'',
           indent @ ''  attributes: mem.getFloat64Array('' @ a @ '', 20),'',
           indent @ ''};'']
      | EclipseAttributesShape a \<Rightarrow>
          [indent @ ''return { attributes: mem.getFloat64Array('' @ a @ '', 20) };'']
      | SingleShape t v \<Rightarrow>
          (case t of
             Float64 _ \<Rightarrow> [indent @ ''return mem.getFloat64('' @ v @ '');'']
           | Int32 _ \<Rightarrow> [indent @ ''return mem.getInt32('' @ v @ '');'']
           | StringBuf _ \<Rightarrow> [indent @ ''return mem.getString('' @ v @ '');'']
           | Float64Array n _ \<Rightarrow>
               [indent @ ''return mem.getFloat64Array('' @ v @ '', '' @ showNat n @ '');'']
           | Int32Array n _ \<Rightarrow>
               [indent @ ''const arr: number[] = [];'',
                indent @ ''for (let i = 0; i < '' @ showNat n @ ''; i++) arr.push(mem.getInt32('' @ v @
                  '' + i * 4));'',
                indent @ ''return arr;'']
           | ErrorBuf _ \<Rightarrow> [])
      | MultiShape fs \<Rightarrow>
          [indent @ ''return {''] @ concat (map (multiFieldLine indent) fs) @ [indent @ ''};''])"

definition buildReturnValue ::
  "OutputRead list \<Rightarrow> FunctionConfig \<Rightarrow> ReturnMode \<Rightarrow> string \<Rightarrow> string list" where
  "buildReturnValue outputReads config retMode indent =
     renderShape indent (buildReturnShape outputReads config retMode)"

text \<open>
  The statements that \<^verbatim>\<open>generateWrapperFunction\<close> emits around the result construction.
  \<open>Call keep f args\<close> is the call of the raw routine, with \<^verbatim>\<open>const ret =\<close> in front when
  \<open>keep\<close> holds; \<open>CheckNegative v\<close> is the block that tests \<^verbatim>\<open>ret < 0\<close> and throws.
\<close>

datatype Stmt =
    Malloc string OutputType
  | AllocString string string
  | Free string
  | Call bool string string
  | CheckNegative string
  | Result ResultShape

definition renderStmt :: "string \<Rightarrow> Stmt \<Rightarrow> string list" where
  \<open>renderStmt indent s =
     (case s of
        Malloc v t \<Rightarrow> [indent @ ''const '' @ v @ '' = raw.malloc('' @ getOutputSize t @ '');'']
      | AllocString v p \<Rightarrow> [indent @ ''const '' @ v @ '' = mem.allocString('' @ p @ '');'']
      | Free v \<Rightarrow> [indent @ ''raw.free('' @ v @ '');'']
      | Call keep f args \<Rightarrow>
          [indent @ (if keep then ''const ret = '' else []) @ ''raw.'' @ f @ ''('' @ args @ '');'']
      | CheckNegative v \<Rightarrow>
          [indent @ ''if (ret < 0) {'',
           indent @ ''  const errMsg = mem.getString('' @ v @ '');'',
           indent @ ''  throw new Error(errMsg || "Swiss Ephemeris error");'',
           indent @ ''}'']
      | Result shape \<Rightarrow> renderShape indent shape)\<close>

text \<open>
  A wrapper: the optional comment, the line that opens the arrow function, the
  allocations, the statements between the allocations and the cleanup, and the frees.
\<close>

record Wrapper =
  docLine :: "string option"
  openLine :: string
  allocations :: "Stmt list"
  body :: "Stmt list"
  frees :: "Stmt list"

definition callArg :: "(string \<times> OutputType) list \<Rightarrow> string list \<Rightarrow> FunctionParam \<Rightarrow> string" where
  \<open>callArg outs inStrings p =
     (if map_of outs (pname p) \<noteq> None then pname p @ ''Ptr''
      else if pname p \<in> set inStrings then pname p @ ''Ptr''
      else if pname p = ''hsys'' then ''(typeof hsys === "string" ? hsys.charCodeAt(0) : hsys)''
      else pname p)\<close>

definition wrapperOf :: "FunctionDecl \<Rightarrow> FunctionConfig \<Rightarrow> Wrapper" where
  "wrapperOf fn config =
     (let friendly = orElse (friendlyName config) (removeFirst ''swe_'' (fname fn));
          outs = (case outputs config of None \<Rightarrow> [] | Some os \<Rightarrow> os);
          inStrings = (case inputStrings config of None \<Rightarrow> [] | Some ss \<Rightarrow> ss);
          retMode = (case returnType config of None \<Rightarrow> RNumber | Some m \<Rightarrow> m);
          inputParams = filter (\<lambda>p. map_of outs (pname p) = None) (params fn);
          signature = buildSignature inputParams inStrings config retMode outs;
          outputReads = map (\<lambda>(n, t). \<lparr>param = n, otype = t, varName = n @ ''Ptr''\<rparr>) outs;
          callArgs = join '', '' (map (callArg outs inStrings) (params fn))
      in \<lparr>docLine = (if truthy (description config)
                      then Some (''/** '' @ orElse (description config) [] @ '' */'') else None),
          openLine = friendly @ '': '' @ signature @ '' => {'',
          allocations = map (\<lambda>(n, t). Malloc (n @ ''Ptr'') t) outs @
                        map (\<lambda>n. AllocString (n @ ''Ptr'') n) inStrings,
          body = [Call (retMode \<noteq> RVoid) (fname fn) callArgs] @
                 (if retMode = RCheckNegative \<or> retMode = RCheckError
                  then (case find (\<lambda>r. isError (otype r)) outputReads of
                          Some e \<Rightarrow> [CheckNegative (varName e)]
                        | None \<Rightarrow> [])
                  else []) @
                 [Result (buildReturnShape outputReads config retMode)],
          frees = map (\<lambda>(n, t). Free (n @ ''Ptr'')) outs @
                  map (\<lambda>n. Free (n @ ''Ptr'')) inStrings\<rparr>)"

text \<open>
  The lines of a wrapper. The \<^verbatim>\<open>try\<close> and \<^verbatim>\<open>finally\<close> lines are there when there is an
  allocation, and then the statements between them are indented by four blanks.
\<close>

definition renderWrapper :: "Wrapper \<Rightarrow> string list" where
  "renderWrapper w =
     (let indent = (if allocations w \<noteq> [] then ''    '' else ''  '')
      in (case docLine w of None \<Rightarrow> [] | Some d \<Rightarrow> [d]) @
         [openLine w] @
         concat (map (renderStmt ''  '') (allocations w)) @
         (if allocations w \<noteq> [] then [''  try {''] else []) @
         concat (map (renderStmt indent) (body w)) @
         (if allocations w \<noteq> []
          then [''  } finally {''] @ concat (map (renderStmt ''    '') (frees w)) @ [''  }'']
          else []) @
         [''},''])"

definition generateWrapperFunction :: "FunctionDecl \<Rightarrow> FunctionConfig \<Rightarrow> string list" where
  "generateWrapperFunction fn config = renderWrapper (wrapperOf fn config)"

section \<open>The configuration table (scripts/function-config.ts)\<close>

text \<open>
  \<^verbatim>\<open>functionConfig\<close>, entry by entry in the order of the source. A character of a
  description beyond ASCII is given by the bytes of its UTF-8 encoding.
\<close>

definition functionConfig :: "(string \<times> FunctionConfig) list" where
  "functionConfig =
    [
     (''swe_calc'',
      \<lparr>friendlyName = Some ''calcEt'',
       outputs = Some [(''xx'', Float64Array 6 None),
                       (''serr'', ErrorBuf 256)],
       inputStrings = None, returnType = Some RCheckNegative, skip = False,
       description = Some ''Calculate planet position (ET time)'',
       resultType = Some ''PlanetPosition''\<rparr>),
     (''swe_calc_ut'',
      \<lparr>friendlyName = Some ''calc'',
       outputs = Some [(''xx'', Float64Array 6 None),
                       (''serr'', ErrorBuf 256)],
       inputStrings = None, returnType = Some RCheckNegative, skip = False,
       description = Some ''Calculate planet position (UT time)'',
       resultType = Some ''PlanetPosition''\<rparr>),
     (''swe_calc_pctr'',
      \<lparr>friendlyName = Some ''calcPlanetocentric'',
       outputs = Some [(''xxret'', Float64Array 6 None),
                       (''serr'', ErrorBuf 256)],
       inputStrings = None, returnType = Some RCheckNegative, skip = False,
       description = Some ''Calculate position relative to another planet'',
       resultType = Some ''PlanetPosition''\<rparr>),
     (''swe_solcross'',
      \<lparr>friendlyName = Some ''solarCrossingEt'',
       outputs = Some [(''serr'', ErrorBuf 256)],
       inputStrings = None, returnType = Some RNumber, skip = False,
       description = Some ''Find when Sun crosses a longitude (ET)'',
       resultType = None\<rparr>),
     (''swe_solcross_ut'',
      \<lparr>friendlyName = Some ''solarCrossing'',
       outputs = Some [(''serr'', ErrorBuf 256)],
       inputStrings = None, returnType = Some RNumber, skip = False,
       description = Some ''Find when Sun crosses a longitude (UT)'',
       resultType = None\<rparr>),
     (''swe_mooncross'',
      \<lparr>friendlyName = Some ''moonCrossingEt'',
       outputs = Some [(''serr'', ErrorBuf 256)],
       inputStrings = None, returnType = Some RNumber, skip = False,
       description = Some ''Find when Moon crosses a longitude (ET)'',
       resultType = None\<rparr>),
     (''swe_mooncross_ut'',
      \<lparr>friendlyName = Some ''moonCrossing'',
       outputs = Some [(''serr'', ErrorBuf 256)],
       inputStrings = None, returnType = Some RNumber, skip = False,
       description = Some ''Find when Moon crosses a longitude (UT)'',
       resultType = None\<rparr>),
     (''swe_mooncross_node'',
      \<lparr>friendlyName = Some ''moonNodeCrossingEt'',
       outputs = Some [(''xlon'', Float64 None),
                       (''xlat'', Float64 None),
                       (''serr'', ErrorBuf 256)],
       inputStrings = None, returnType = Some RNumber, skip = False,
       description = Some ''Find when Moon crosses its node (ET)'',
       resultType = None\<rparr>),
     (''swe_mooncross_node_ut'',
      \<lparr>friendlyName = Some ''moonNodeCrossing'',
       outputs = Some [(''xlon'', Float64 None),
                       (''xlat'', Float64 None),
                       (''serr'', ErrorBuf 256)],
       inputStrings = None, returnType = Some RNumber, skip = False,
       description = Some ''Find when Moon crosses its node (UT)'',
       resultType = None\<rparr>),
     (''swe_helio_cross'',
      \<lparr>friendlyName = Some ''helioCrossingEt'',
       outputs = Some [(''jd_cross'', Float64 None),
                       (''serr'', ErrorBuf 256)],
       inputStrings = None, returnType = Some RCheckNegative, skip = False,
       description = Some ''Find heliocentric crossing (ET)'',
       resultType = None\<rparr>),
     (''swe_helio_cross_ut'',
      \<lparr>friendlyName = Some ''helioCrossing'',
       outputs = Some [(''jd_cross'', Float64 None),
                       (''serr'', ErrorBuf 256)],
       inputStrings = None, returnType = Some RCheckNegative, skip = False,
       description = Some ''Find heliocentric crossing (UT)'',
       resultType = None\<rparr>),
     (''swe_pheno'',
      \<lparr>friendlyName = Some ''phenomenaEt'',
       outputs = Some [(''attr'', Float64Array 20 None),
                       (''serr'', ErrorBuf 256)],
       inputStrings = None, returnType = Some RCheckNegative, skip = False,
       description = Some ''Calculate planetary phenomena (ET)'',
       resultType = Some ''PhenomenaResult''\<rparr>),
     (''swe_pheno_ut'',
      \<lparr>friendlyName = Some ''phenomena'',
       outputs = Some [(''attr'', Float64Array 20 None),
                       (''serr'', ErrorBuf 256)],
       inputStrings = None, returnType = Some RCheckNegative, skip = False,
       description = Some ''Calculate planetary phenomena (UT)'',
       resultType = Some ''PhenomenaResult''\<rparr>),
     (''swe_nod_aps'',
      \<lparr>friendlyName = Some ''nodesApsidesEt'',
       outputs = Some [(''xnasc'', Float64Array 6 None),
                       (''xndsc'', Float64Array 6 None),
                       (''xperi'', Float64Array 6 None),
                       (''xaphe'', Float64Array 6 None),
                       (''serr'', ErrorBuf 256)],
       inputStrings = None, returnType = Some RCheckNegative, skip = False,
       description = Some ''Calculate nodes and apsides (ET)'',
       resultType = Some ''NodesApsidesResult''\<rparr>),
     (''swe_nod_aps_ut'',
      \<lparr>friendlyName = Some ''nodesApsides'',
       outputs = Some [(''xnasc'', Float64Array 6 None),
                       (''xndsc'', Float64Array 6 None),
                       (''xperi'', Float64Array 6 None),
                       (''xaphe'', Float64Array 6 None),
                       (''serr'', ErrorBuf 256)],
       inputStrings = None, returnType = Some RCheckNegative, skip = False,
       description = Some ''Calculate nodes and apsides (UT)'',
       resultType = Some ''NodesApsidesResult''\<rparr>),
     (''swe_get_orbital_elements'',
      \<lparr>friendlyName = Some ''orbitalElements'',
       outputs = Some [(''dret'', Float64Array 50 None),
                       (''serr'', ErrorBuf 256)],
       inputStrings = None, returnType = Some RCheckNegative, skip = False,
       description = Some ''Get orbital elements of a planet'',
       resultType = Some ''OrbitalElements''\<rparr>),
     (''swe_orbit_max_min_true_distance'',
      \<lparr>friendlyName = Some ''orbitDistanceExtremes'',
       outputs = Some [(''dmax'', Float64 None),
                       (''dmin'', Float64 None),
                       (''dtrue'', Float64 None),
                       (''serr'', ErrorBuf 256)],
       inputStrings = None, returnType = Some RCheckNegative, skip = False,
       description = Some ''Get max/min true distance of orbit'',
       resultType = None\<rparr>),
     (''swe_heliacal_pheno_ut'',
      \<lparr>friendlyName = Some ''heliacalPhenomena'',
       outputs = Some [(''darr'', Float64Array 50 None),
                       (''serr'', ErrorBuf 256)],
       inputStrings = Some [''ObjectName''], returnType = Some RCheckNegative, skip = False,
       description = Some ''Calculate heliacal phenomena'',
       resultType = None\<rparr>),
     (''swe_fixstar'',
      \<lparr>friendlyName = Some ''fixedStarEt'',
       outputs = Some [(''xx'', Float64Array 6 None),
                       (''serr'', ErrorBuf 256)],
       inputStrings = Some [''star''], returnType = Some RCheckNegative, skip = False,
       description = Some ''Calculate fixed star position (ET)'',
       resultType = Some ''PlanetPosition''\<rparr>),
     (''swe_fixstar_ut'',
      \<lparr>friendlyName = Some ''fixedStar'',
       outputs = Some [(''xx'', Float64Array 6 None),
                       (''serr'', ErrorBuf 256)],
       inputStrings = Some [''star''], returnType = Some RCheckNegative, skip = False,
       description = Some ''Calculate fixed star position (UT)'',
       resultType = Some ''PlanetPosition''\<rparr>),
     (''swe_fixstar_mag'',
      \<lparr>friendlyName = Some ''fixedStarMagnitude'',
       outputs = Some [(''mag'', Float64 None),
                       (''serr'', ErrorBuf 256)],
       inputStrings = Some [''star''], returnType = Some RCheckNegative, skip = False,
       description = Some ''Get fixed star magnitude'',
       resultType = None\<rparr>),
     (''swe_fixstar2'',
      \<lparr>friendlyName = Some ''fixedStar2Et'',
       outputs = Some [(''xx'', Float64Array 6 None),
                       (''serr'', ErrorBuf 256)],
       inputStrings = Some [''star''], returnType = Some RCheckNegative, skip = False,
       description = Some ''Calculate fixed star position v2 (ET)'',
       resultType = Some ''PlanetPosition''\<rparr>),
     (''swe_fixstar2_ut'',
      \<lparr>friendlyName = Some ''fixedStar2'',
       outputs = Some [(''xx'', Float64Array 6 None),
                       (''serr'', ErrorBuf 256)],
       inputStrings = Some [''star''], returnType = Some RCheckNegative, skip = False,
       description = Some ''Calculate fixed star position v2 (UT)'',
       resultType = Some ''PlanetPosition''\<rparr>),
     (''swe_fixstar2_mag'',
      \<lparr>friendlyName = Some ''fixedStar2Magnitude'',
       outputs = Some [(''mag'', Float64 None),
                       (''serr'', ErrorBuf 256)],
       inputStrings = Some [''star''], returnType = Some RCheckNegative, skip = False,
       description = Some ''Get fixed star magnitude v2'',
       resultType = None\<rparr>),
     (''swe_julday'',
      \<lparr>friendlyName = Some ''julday'',
       outputs = None,
       inputStrings = None, returnType = Some RNumber, skip = False,
       description = Some ''Convert date to Julian Day'',
       resultType = None\<rparr>),
     (''swe_revjul'',
      \<lparr>friendlyName = Some ''revjul'',
       outputs = Some [(''jyear'', Int32 (Some ''year'')),
                       (''jmon'', Int32 (Some ''month'')),
                       (''jday'', Int32 (Some ''day'')),
                       (''jut'', Float64 (Some ''hour''))],
       inputStrings = None, returnType = Some RVoid, skip = False,
       description = Some ''Convert Julian Day to date components'',
       resultType = Some ''DateComponents''\<rparr>),
     (''swe_date_conversion'',
      \<lparr>friendlyName = Some ''dateConversion'',
       outputs = Some [(''tjd'', Float64 None)],
       inputStrings = None, returnType = Some RCheckNegative, skip = False,
       description = Some ''Convert date with calendar check'',
       resultType = None\<rparr>),
     (''swe_utc_to_jd'',
      \<lparr>friendlyName = Some ''utcToJd'',
       outputs = Some [(''dret'', Float64Array 2 None),
                       (''serr'', ErrorBuf 256)],
       inputStrings = None, returnType = Some RCheckNegative, skip = False,
       description = Some ''Convert UTC to Julian Day'',
       resultType = Some ''JulianDayResult''\<rparr>),
     (''swe_jdet_to_utc'',
      \<lparr>friendlyName = Some ''jdEtToUtc'',
       outputs = Some [(''iyear'', Int32 (Some ''year'')),
                       (''imonth'', Int32 (Some ''month'')),
                       (''iday'', Int32 (Some ''day'')),
                       (''ihour'', Int32 (Some ''hour'')),
                       (''imin'', Int32 (Some ''minute'')),
                       (''dsec'', Float64 (Some ''second''))],
       inputStrings = None, returnType = Some RVoid, skip = False,
       description = Some ''Convert Julian Day ET to UTC'',
       resultType = Some ''UtcComponents''\<rparr>),
     (''swe_jdut1_to_utc'',
      \<lparr>friendlyName = Some ''jdUt1ToUtc'',
       outputs = Some [(''iyear'', Int32 (Some ''year'')),
                       (''imonth'', Int32 (Some ''month'')),
                       (''iday'', Int32 (Some ''day'')),
                       (''ihour'', Int32 (Some ''hour'')),
                       (''imin'', Int32 (Some ''minute'')),
                       (''dsec'', Float64 (Some ''second''))],
       inputStrings = None, returnType = Some RVoid, skip = False,
       description = Some ''Convert Julian Day UT1 to UTC'',
       resultType = Some ''UtcComponents''\<rparr>),
     (''swe_utc_time_zone'',
      \<lparr>friendlyName = Some ''utcTimeZone'',
       outputs = Some [(''iyear_out'', Int32 (Some ''year'')),
                       (''imonth_out'', Int32 (Some ''month'')),
                       (''iday_out'', Int32 (Some ''day'')),
                       (''ihour_out'', Int32 (Some ''hour'')),
                       (''imin_out'', Int32 (Some ''minute'')),
                       (''dsec_out'', Float64 (Some ''second''))],
       inputStrings = None, returnType = Some RVoid, skip = False,
       description = Some ''Convert between timezones'',
       resultType = Some ''UtcComponents''\<rparr>),
     (''swe_houses'',
      \<lparr>friendlyName = Some ''housesSimple'',
       outputs = Some [(''cusps'', Float64Array 13 None),
                       (''ascmc'', Float64Array 10 None)],
       inputStrings = None, returnType = Some RNumber, skip = False,
       description = Some ''Calculate house cusps (simple)'',
       resultType = Some ''HouseResult''\<rparr>),
     (''swe_houses_ex'',
      \<lparr>friendlyName = Some ''houses'',
       outputs = Some [(''cusps'', Float64Array 13 None),
                       (''ascmc'', Float64Array 10 None)],
       inputStrings = None, returnType = Some RNumber, skip = False,
       description = Some ''Calculate house cusps (extended)'',
       resultType = Some ''HouseResult''\<rparr>),
     (''swe_houses_ex2'',
      \<lparr>friendlyName = Some ''housesWithSpeed'',
       outputs = Some [(''cusps'', Float64Array 13 None),
                       (''ascmc'', Float64Array 10 None),
                       (''cusp_speed'', Float64Array 13 None),
                       (''ascmc_speed'', Float64Array 10 None),
                       (''serr'', ErrorBuf 256)],
       inputStrings = None, returnType = Some RNumber, skip = False,
       description = Some ''Calculate house cusps with speeds'',
       resultType = Some ''HouseResultWithSpeed''\<rparr>),
     (''swe_houses_armc'',
      \<lparr>friendlyName = Some ''housesArmc'',
       outputs = Some [(''cusps'', Float64Array 13 None),
                       (''ascmc'', Float64Array 10 None)],
       inputStrings = None, returnType = Some RNumber, skip = False,
       description = Some ''Calculate houses from ARMC'',
       resultType = Some ''HouseResult''\<rparr>),
     (''swe_houses_armc_ex2'',
      \<lparr>friendlyName = Some ''housesArmcWithSpeed'',
       outputs = Some [(''cusps'', Float64Array 13 None),
                       (''ascmc'', Float64Array 10 None),
                       (''cusp_speed'', Float64Array 13 None),
                       (''ascmc_speed'', Float64Array 10 None),
                       (''serr'', ErrorBuf 256)],
       inputStrings = None, returnType = Some RNumber, skip = False,
       description = Some ''Calculate houses from ARMC with speeds'',
       resultType = Some ''HouseResultWithSpeed''\<rparr>),
     (''swe_house_pos'',
      \<lparr>friendlyName = Some ''housePosition'',
       outputs = Some [(''serr'', ErrorBuf 256)],
       inputStrings = None, returnType = Some RNumber, skip = False,
       description = Some ''Calculate house position of a planet'',
       resultType = None\<rparr>),
     (''swe_gauquelin_sector'',
      \<lparr>friendlyName = Some ''gauquelinSector'',
       outputs = Some [(''dgsect'', Float64 None),
                       (''serr'', ErrorBuf 256)],
       inputStrings = Some [''starname''], returnType = Some RCheckNegative, skip = False,
       description = Some ''Calculate Gauquelin sector'',
       resultType = None\<rparr>),
     (''swe_sol_eclipse_where'',
      \<lparr>friendlyName = Some ''solarEclipseWhere'',
       outputs = Some [(''geopos'', Float64Array 10 None),
                       (''attr'', Float64Array 20 None),
                       (''serr'', ErrorBuf 256)],
       inputStrings = None, returnType = Some RCheckNegative, skip = False,
       description = Some ''Find where solar eclipse is central'',
       resultType = Some ''EclipseWhereResult''\<rparr>),
     (''swe_sol_eclipse_how'',
      \<lparr>friendlyName = Some ''solarEclipseHow'',
       outputs = Some [(''attr'', Float64Array 20 None),
                       (''serr'', ErrorBuf 256)],
       inputStrings = None, returnType = Some RCheckNegative, skip = False,
       description = Some ''Calculate solar eclipse attributes'',
       resultType = Some ''EclipseAttributes''\<rparr>),
     (''swe_sol_eclipse_when_loc'',
      \<lparr>friendlyName = Some ''solarEclipseWhenLocal'',
       outputs = Some [(''tret'', Float64Array 10 None),
                       (''attr'', Float64Array 20 None),
                       (''serr'', ErrorBuf 256)],
       inputStrings = None, returnType = Some RCheckNegative, skip = False,
       description = Some ''Find next solar eclipse at location'',
       resultType = Some ''EclipseTimeResult''\<rparr>),
     (''swe_sol_eclipse_when_glob'',
      \<lparr>friendlyName = Some ''solarEclipseWhenGlobal'',
       outputs = Some [(''tret'', Float64Array 10 None),
                       (''serr'', ErrorBuf 256)],
       inputStrings = None, returnType = Some RCheckNegative, skip = False,
       description = Some ''Find next solar eclipse globally'',
       resultType = Some ''EclipseTimeResult''\<rparr>),
     (''swe_lun_occult_where'',
      \<lparr>friendlyName = Some ''lunarOccultationWhere'',
       outputs = Some [(''geopos'', Float64Array 10 None),
                       (''attr'', Float64Array 20 None),
                       (''serr'', ErrorBuf 256)],
       inputStrings = Some [''starname''], returnType = Some RCheckNegative, skip = False,
       description = Some ''Find where lunar occultation is central'',
       resultType = Some ''EclipseWhereResult''\<rparr>),
     (''swe_lun_occult_when_loc'',
      \<lparr>friendlyName = Some ''lunarOccultationWhenLocal'',
       outputs = Some [(''tret'', Float64Array 10 None),
                       (''attr'', Float64Array 20 None),
                       (''serr'', ErrorBuf 256)],
       inputStrings = Some [''starname''], returnType = Some RCheckNegative, skip = False,
       description = Some ''Find next lunar occultation at location'',
       resultType = Some ''EclipseTimeResult''\<rparr>),
     (''swe_lun_occult_when_glob'',
      \<lparr>friendlyName = Some ''lunarOccultationWhenGlobal'',
       outputs = Some [(''tret'', Float64Array 10 None),
                       (''serr'', ErrorBuf 256)],
       inputStrings = Some [''starname''], returnType = Some RCheckNegative, skip = False,
       description = Some ''Find next lunar occultation globally'',
       resultType = Some ''EclipseTimeResult''\<rparr>),
     (''swe_lun_eclipse_how'',
      \<lparr>friendlyName = Some ''lunarEclipseHow'',
       outputs = Some [(''attr'', Float64Array 20 None),
                       (''serr'', ErrorBuf 256)],
       inputStrings = None, returnType = Some RCheckNegative, skip = False,
       description = Some ''Calculate lunar eclipse attributes'',
       resultType = Some ''EclipseAttributes''\<rparr>),
     (''swe_lun_eclipse_when'',
      \<lparr>friendlyName = Some ''lunarEclipseWhen'',
       outputs = Some [(''tret'', Float64Array 10 None),
                       (''serr'', ErrorBuf 256)],
       inputStrings = None, returnType = Some RCheckNegative, skip = False,
       description = Some ''Find next lunar eclipse'',
       resultType = Some ''EclipseTimeResult''\<rparr>),
     (''swe_lun_eclipse_when_loc'',
      \<lparr>friendlyName = Some ''lunarEclipseWhenLocal'',
       outputs = Some [(''tret'', Float64Array 10 None),
                       (''attr'', Float64Array 20 None),
                       (''serr'', ErrorBuf 256)],
       inputStrings = None, returnType = Some RCheckNegative, skip = False,
       description = Some ''Find next lunar eclipse at location'',
       resultType = Some ''EclipseTimeResult''\<rparr>),
     (''swe_rise_trans'',
      \<lparr>friendlyName = Some ''riseTransit'',
       outputs = Some [(''tret'', Float64 None),
                       (''serr'', ErrorBuf 256)],
       inputStrings = Some [''starname''], returnType = Some RCheckNegative, skip = False,
       description = Some ''Calculate rise, transit, set times'',
       resultType = None\<rparr>),
     (''swe_rise_trans_true_hor'',
      \<lparr>friendlyName = Some ''riseTransitTrueHorizon'',
       outputs = Some [(''tret'', Float64 None),
                       (''serr'', ErrorBuf 256)],
       inputStrings = Some [''starname''], returnType = Some RCheckNegative, skip = False,
       description = Some ''Calculate rise/transit with true horizon'',
       resultType = None\<rparr>),
     (''swe_azalt'',
      \<lparr>friendlyName = Some ''azimuthAltitude'',
       outputs = Some [(''xaz'', Float64Array 3 None)],
       inputStrings = None, returnType = Some RVoid, skip = False,
       description = Some ''Convert ecliptic to horizontal coordinates'',
       resultType = Some ''AzimuthAltitude''\<rparr>),
     (''swe_azalt_rev'',
      \<lparr>friendlyName = Some ''azimuthAltitudeReverse'',
       outputs = Some [(''xout'', Float64Array 3 None)],
       inputStrings = None, returnType = Some RVoid, skip = False,
       description = Some ''Convert horizontal to ecliptic coordinates'',
       resultType = None\<rparr>),
     (''swe_heliacal_ut'',
      \<lparr>friendlyName = Some ''heliacalRising'',
       outputs = Some [(''dret'', Float64Array 50 None),
                       (''serr'', ErrorBuf 256)],
       inputStrings = Some [''ObjectName''], returnType = Some RCheckNegative, skip = False,
       description = Some ''Calculate heliacal rising/setting'',
       resultType = None\<rparr>),
     (''swe_vis_limit_mag'',
      \<lparr>friendlyName = Some ''visibilityLimitMagnitude'',
       outputs = Some [(''dret'', Float64Array 8 None),
                       (''serr'', ErrorBuf 256)],
       inputStrings = Some [''ObjectName''], returnType = Some RCheckNegative, skip = False,
       description = Some ''Calculate limiting magnitude for visibility'',
       resultType = None\<rparr>),
     (''swe_heliacal_angle'',
      \<lparr>friendlyName = Some ''heliacalAngle'',
       outputs = Some [(''dret'', Float64Array 3 None),
                       (''serr'', ErrorBuf 256)],
       inputStrings = None, returnType = Some RCheckNegative, skip = False,
       description = Some ''Calculate heliacal angle'',
       resultType = None\<rparr>),
     (''swe_topo_arcus_visionis'',
      \<lparr>friendlyName = Some ''topoArcusVisionis'',
       outputs = Some [(''dret'', Float64Array 3 None),
                       (''serr'', ErrorBuf 256)],
       inputStrings = None, returnType = Some RCheckNegative, skip = False,
       description = Some ''Calculate topocentric arcus visionis'',
       resultType = None\<rparr>),
     (''swe_refrac'',
      \<lparr>friendlyName = Some ''refraction'',
       outputs = None,
       inputStrings = None, returnType = Some RNumber, skip = False,
       description = Some ''Calculate atmospheric refraction'',
       resultType = None\<rparr>),
     (''swe_refrac_extended'',
      \<lparr>friendlyName = Some ''refractionExtended'',
       outputs = Some [(''dret'', Float64Array 4 None)],
       inputStrings = None, returnType = Some RNumber, skip = False,
       description = Some ''Calculate extended atmospheric refraction'',
       resultType = None\<rparr>),
     (''swe_cotrans'',
      \<lparr>friendlyName = Some ''coordinateTransform'',
       outputs = Some [(''xpn'', Float64Array 3 None)],
       inputStrings = None, returnType = Some RVoid, skip = False,
       description = Some ''Transform ecliptic/equatorial coordinates'',
       resultType = None\<rparr>),
     (''swe_cotrans_sp'',
      \<lparr>friendlyName = Some ''coordinateTransformWithSpeed'',
       outputs = Some [(''xpn'', Float64Array 6 None)],
       inputStrings = None, returnType = Some RVoid, skip = False,
       description = Some ''Transform coordinates with speed'',
       resultType = None\<rparr>),
     (''swe_deltat'',
      \<lparr>friendlyName = Some ''deltaT'',
       outputs = None,
       inputStrings = None, returnType = Some RNumber, skip = False,
       description = Some ''Get Delta T (TT - UT)'',
       resultType = None\<rparr>),
     (''swe_deltat_ex'',
      \<lparr>friendlyName = Some ''deltaTExtended'',
       outputs = Some [(''serr'', ErrorBuf 256)],
       inputStrings = None, returnType = Some RNumber, skip = False,
       description = Some ''Get Delta T with flags'',
       resultType = None\<rparr>),
     (''swe_time_equ'',
      \<lparr>friendlyName = Some ''equationOfTime'',
       outputs = Some [(''te'', Float64 None),
                       (''serr'', ErrorBuf 256)],
       inputStrings = None, returnType = Some RCheckNegative, skip = False,
       description = Some ''Get equation of time'',
       resultType = None\<rparr>),
     (''swe_lmt_to_lat'',
      \<lparr>friendlyName = Some ''localMeanTimeToApparent'',
       outputs = Some [(''tjd_lat'', Float64 None),
                       (''serr'', ErrorBuf 256)],
       inputStrings = None, returnType = Some RCheckNegative, skip = False,
       description = Some ''Convert LMT to LAT'',
       resultType = None\<rparr>),
     (''swe_lat_to_lmt'',
      \<lparr>friendlyName = Some ''apparentToLocalMeanTime'',
       outputs = Some [(''tjd_lmt'', Float64 None),
                       (''serr'', ErrorBuf 256)],
       inputStrings = None, returnType = Some RCheckNegative, skip = False,
       description = Some ''Convert LAT to LMT'',
       resultType = None\<rparr>),
     (''swe_set_sid_mode'',
      \<lparr>friendlyName = Some ''setSiderealMode'',
       outputs = None,
       inputStrings = None, returnType = Some RVoid, skip = False,
       description = Some ''Set sidereal calculation mode'',
       resultType = None\<rparr>),
     (''swe_get_ayanamsa'',
      \<lparr>friendlyName = Some ''getAyanamsaEt'',
       outputs = None,
       inputStrings = None, returnType = Some RNumber, skip = False,
       description = Some ''Get ayanamsa (ET)'',
       resultType = None\<rparr>),
     (''swe_get_ayanamsa_ut'',
      \<lparr>friendlyName = Some ''getAyanamsa'',
       outputs = None,
       inputStrings = None, returnType = Some RNumber, skip = False,
       description = Some ''Get ayanamsa (UT)'',
       resultType = None\<rparr>),
     (''swe_get_ayanamsa_ex'',
      \<lparr>friendlyName = Some ''getAyanamsaExEt'',
       outputs = Some [(''daya'', Float64 None),
                       (''serr'', ErrorBuf 256)],
       inputStrings = None, returnType = Some RCheckNegative, skip = False,
       description = Some ''Get ayanamsa extended (ET)'',
       resultType = None\<rparr>),
     (''swe_get_ayanamsa_ex_ut'',
      \<lparr>friendlyName = Some ''getAyanamsaEx'',
       outputs = Some [(''daya'', Float64 None),
                       (''serr'', ErrorBuf 256)],
       inputStrings = None, returnType = Some RCheckNegative, skip = False,
       description = Some ''Get ayanamsa extended (UT)'',
       resultType = None\<rparr>),
     (''swe_sidtime'',
      \<lparr>friendlyName = Some ''siderealTime'',
       outputs = None,
       inputStrings = None, returnType = Some RNumber, skip = False,
       description = Some ''Get sidereal time'',
       resultType = None\<rparr>),
     (''swe_sidtime0'',
      \<lparr>friendlyName = Some ''siderealTime0'',
       outputs = None,
       inputStrings = None, returnType = Some RNumber, skip = False,
       description = Some ''Get sidereal time with parameters'',
       resultType = None\<rparr>),
     (''swe_degnorm'',
      \<lparr>friendlyName = Some ''normalizeDegrees'',
       outputs = None,
       inputStrings = None, returnType = Some RNumber, skip = False,
       description = Some ''Normalize degrees to 0-360'',
       resultType = None\<rparr>),
     (''swe_radnorm'',
      \<lparr>friendlyName = Some ''normalizeRadians'',
       outputs = None,
       inputStrings = None, returnType = Some RNumber, skip = False,
       description = Some (''Normalize radians to 0-2'' @ [CHR 0xCF] @ [CHR 0x80]),
       resultType = None\<rparr>),
     (''swe_rad_midp'',
      \<lparr>friendlyName = Some ''radianMidpoint'',
       outputs = None,
       inputStrings = None, returnType = Some RNumber, skip = False,
       description = Some ''Calculate midpoint in radians'',
       resultType = None\<rparr>),
     (''swe_deg_midp'',
      \<lparr>friendlyName = Some ''degreeMidpoint'',
       outputs = None,
       inputStrings = None, returnType = Some RNumber, skip = False,
       description = Some ''Calculate midpoint in degrees'',
       resultType = None\<rparr>),
     (''swe_split_deg'',
      \<lparr>friendlyName = Some ''splitDegrees'',
       outputs = Some [(''ideg'', Int32 (Some ''degrees'')),
                       (''imin'', Int32 (Some ''minutes'')),
                       (''isec'', Int32 (Some ''seconds'')),
                       (''dsecfr'', Float64 (Some ''secondFraction'')),
                       (''isgn'', Int32 (Some ''sign''))],
       inputStrings = None, returnType = Some RVoid, skip = False,
       description = Some ''Split degrees into components'',
       resultType = Some ''SplitDegrees''\<rparr>),
     (''swe_csnorm'',
      \<lparr>friendlyName = Some ''normalizeCentiseconds'',
       outputs = None,
       inputStrings = None, returnType = Some RNumber, skip = False,
       description = Some ''Normalize centiseconds'',
       resultType = None\<rparr>),
     (''swe_difcsn'',
      \<lparr>friendlyName = Some ''differenceCentiseconds'',
       outputs = None,
       inputStrings = None, returnType = Some RNumber, skip = False,
       description = Some ''Difference in centiseconds (normalized)'',
       resultType = None\<rparr>),
     (''swe_difdegn'',
      \<lparr>friendlyName = Some ''differenceDegrees'',
       outputs = None,
       inputStrings = None, returnType = Some RNumber, skip = False,
       description = Some ''Difference in degrees (normalized)'',
       resultType = None\<rparr>),
     (''swe_difcs2n'',
      \<lparr>friendlyName = Some ''differenceCentiseconds2'',
       outputs = None,
       inputStrings = None, returnType = Some RNumber, skip = False,
       description = Some ''Difference in centiseconds (-180..180)'',
       resultType = None\<rparr>),
     (''swe_difdeg2n'',
      \<lparr>friendlyName = Some ''differenceDegrees2'',
       outputs = None,
       inputStrings = None, returnType = Some RNumber, skip = False,
       description = Some ''Difference in degrees (-180..180)'',
       resultType = None\<rparr>),
     (''swe_difrad2n'',
      \<lparr>friendlyName = Some ''differenceRadians2'',
       outputs = None,
       inputStrings = None, returnType = Some RNumber, skip = False,
       description = Some (''Difference in radians (-'' @ [CHR 0xCF] @ [CHR 0x80] @ ''..'' @ [CHR 0xCF] @ [CHR 0x80] @ '')''),
       resultType = None\<rparr>),
     (''swe_csroundsec'',
      \<lparr>friendlyName = Some ''roundCentiseconds'',
       outputs = None,
       inputStrings = None, returnType = Some RNumber, skip = False,
       description = Some ''Round centiseconds to seconds'',
       resultType = None\<rparr>),
     (''swe_d2l'',
      \<lparr>friendlyName = Some ''doubleToLong'',
       outputs = None,
       inputStrings = None, returnType = Some RNumber, skip = False,
       description = Some ''Convert double to long'',
       resultType = None\<rparr>),
     (''swe_day_of_week'',
      \<lparr>friendlyName = Some ''dayOfWeek'',
       outputs = None,
       inputStrings = None, returnType = Some RNumber, skip = False,
       description = Some ''Get day of week (0=Mon)'',
       resultType = None\<rparr>),
     (''swe_close'',
      \<lparr>friendlyName = Some ''close'',
       outputs = None,
       inputStrings = None, returnType = Some RVoid, skip = False,
       description = Some ''Close Swiss Ephemeris and free resources'',
       resultType = None\<rparr>),
     (''swe_set_ephe_path'',
      \<lparr>friendlyName = Some ''setEphemerisPath'',
       outputs = None,
       inputStrings = Some [''path''], returnType = Some RVoid, skip = False,
       description = Some ''Set path to ephemeris files'',
       resultType = None\<rparr>),
     (''swe_set_jpl_file'',
      \<lparr>friendlyName = Some ''setJplFile'',
       outputs = None,
       inputStrings = Some [''fname''], returnType = Some RVoid, skip = False,
       description = Some ''Set JPL ephemeris file'',
       resultType = None\<rparr>),
     (''swe_get_planet_name'',
      \<lparr>friendlyName = Some ''getPlanetName'',
       outputs = Some [(''spname'', StringBuf 64)],
       inputStrings = None, returnType = Some RNumber, skip = False,
       description = Some ''Get name of a planet'',
       resultType = None\<rparr>),
     (''swe_set_topo'',
      \<lparr>friendlyName = Some ''setTopocentric'',
       outputs = None,
       inputStrings = None, returnType = Some RVoid, skip = False,
       description = Some ''Set topocentric observer location'',
       resultType = None\<rparr>),
     (''swe_set_lapse_rate'',
      \<lparr>friendlyName = Some ''setLapseRate'',
       outputs = None,
       inputStrings = None, returnType = Some RVoid, skip = False,
       description = Some ''Set atmospheric lapse rate'',
       resultType = None\<rparr>),
     (''swe_set_interpolate_nut'',
      \<lparr>friendlyName = Some ''setInterpolateNutation'',
       outputs = None,
       inputStrings = None, returnType = Some RVoid, skip = False,
       description = Some ''Set nutation interpolation'',
       resultType = None\<rparr>),
     (''swe_get_tid_acc'',
      \<lparr>friendlyName = Some ''getTidalAcceleration'',
       outputs = None,
       inputStrings = None, returnType = Some RNumber, skip = False,
       description = Some ''Get tidal acceleration'',
       resultType = None\<rparr>),
     (''swe_set_tid_acc'',
      \<lparr>friendlyName = Some ''setTidalAcceleration'',
       outputs = None,
       inputStrings = None, returnType = Some RVoid, skip = False,
       description = Some ''Set tidal acceleration'',
       resultType = None\<rparr>),
     (''swe_set_delta_t_userdef'',
      \<lparr>friendlyName = Some ''setDeltaTUserDefined'',
       outputs = None,
       inputStrings = None, returnType = Some RVoid, skip = False,
       description = Some ''Set user-defined delta T'',
       resultType = None\<rparr>),
     (''swe_set_astro_models'',
      \<lparr>friendlyName = Some ''setAstroModels'',
       outputs = None,
       inputStrings = None, returnType = None, skip = True,
       description = Some ''Set astronomical models'',
       resultType = None\<rparr>),
     (''swe_get_astro_models'',
      \<lparr>friendlyName = Some ''getAstroModels'',
       outputs = None,
       inputStrings = None, returnType = None, skip = True,
       description = Some ''Get astronomical models'',
       resultType = None\<rparr>)]"

text \<open>
  \<^verbatim>\<open>functionConfig[fn.name] || { friendlyName: fn.name.replace("swe_", "") }\<close>, as
  \<^verbatim>\<open>generateFriendlyWrappers\<close> looks a routine up.
\<close>

definition defaultConfig :: "string \<Rightarrow> FunctionConfig" where
  "defaultConfig n =
     \<lparr>friendlyName = Some (removeFirst ''swe_'' n), outputs = None, inputStrings = None,
      returnType = None, skip = False, description = None, resultType = None\<rparr>"

definition configFor :: "string \<Rightarrow> FunctionConfig" where
  "configFor n = (case map_of functionConfig n of None \<Rightarrow> defaultConfig n | Some c \<Rightarrow> c)"

text \<open>The loop of \<^verbatim>\<open>generateFriendlyWrappers\<close> over the routines: the lines of every wrapper.\<close>

definition wrapperLines :: "FunctionDecl list \<Rightarrow> string list" where
  "wrapperLines functions =
     concat (map (\<lambda>fn. let config = configFor (fname fn)
                         in if skip config then []
                            else map (\<lambda>l. ''    '' @ l) (generateWrapperFunction fn config) @ [[]])
                 functions)"

section \<open>What a synthesized wrapper does when it is called\<close>

text \<open>
  The statements of a wrapper are given a meaning, so that claims about calls of the
  emitted code can be stated. A computation returns a value, throws, or does not return.
\<close>

datatype 'a Comp = Diverge | Throw string | Done 'a

definition andThen :: "'a Comp \<Rightarrow> ('a \<Rightarrow> 'b Comp) \<Rightarrow> 'b Comp" where
  "andThen m f = (case m of Diverge \<Rightarrow> Diverge | Throw e \<Rightarrow> Throw e | Done x \<Rightarrow> f x)"

fun collect :: "'a Comp list \<Rightarrow> 'a list Comp" where
  "collect [] = Done []"
| "collect (m # ms) = andThen m (\<lambda>x. andThen (collect ms) (\<lambda>xs. Done (x # xs)))"

text \<open>The values that wrappers return; numbers are taken as reals.\<close>

datatype JsVal = JNum real | JStr string | JArr "JsVal list" | JObj "(string \<times> JsVal) list" | JUndefined

text \<open>
  The world around one call: the addresses that the allocator hands out, one after the
  other; the number of bytes that the text passed for an input string takes, its final zero
  included, and the size of the linear memory when such a text is written to it; what the
  call of the raw routine does; and the linear memory after that call, as bytes and as the
  numbers that a \<^verbatim>\<open>DataView\<close> reads from it (\<open>None\<close> beyond its bounds).
\<close>

record World =
  mallocAddr :: "nat \<Rightarrow> nat"
  encodedLength :: "string \<Rightarrow> nat"
  bufferLength :: nat
  native :: "real Comp"
  memory :: "byte list"
  f64At :: "nat \<Rightarrow> real option"
  i32At :: "nat \<Rightarrow> int option"
  decoder :: "byte list \<Rightarrow> string"

text \<open>The memory helpers of src/helpers.ts, on a world.\<close>

definition getInt32 :: "World \<Rightarrow> nat \<Rightarrow> JsVal Comp" where
  "getInt32 w ptr = (case i32At w ptr of None \<Rightarrow> Throw ''RangeError'' | Some v \<Rightarrow> Done (JNum (of_int v)))"

definition getFloat64 :: "World \<Rightarrow> nat \<Rightarrow> JsVal Comp" where
  "getFloat64 w ptr = (case f64At w ptr of None \<Rightarrow> Throw ''RangeError'' | Some v \<Rightarrow> Done (JNum v))"

definition getFloat64Array :: "World \<Rightarrow> nat \<Rightarrow> nat \<Rightarrow> JsVal list Comp" where
  "getFloat64Array w ptr cnt = collect (map (\<lambda>i. getFloat64 w (ptr + i * 8)) [0..<cnt])"

definition getStringAt :: "World \<Rightarrow> nat \<Rightarrow> JsVal Comp" where
  "getStringAt w ptr =
     (case getString (decoder w) (memory w) ptr of None \<Rightarrow> Diverge | Some s \<Rightarrow> Done (JStr s))"

text \<open>
  The state of a call: the pointer variables that are declared, the value of \<^verbatim>\<open>ret\<close>,
  the number of allocations made, and the allocator calls so far.
\<close>

datatype Event = EvMalloc nat nat | EvAllocString nat | EvFree nat

record RunState =
  vars :: "string \<rightharpoonup> nat"
  ret :: "real option"
  allocCount :: nat
  trace :: "Event list"

definition initState :: RunState where
  "initState = \<lparr>vars = Map.empty, ret = None, allocCount = 0, trace = []\<rparr>"

definition readVar :: "RunState \<Rightarrow> string \<Rightarrow> nat Comp" where
  "readVar st v = (case vars st v of None \<Rightarrow> Throw ''ReferenceError'' | Some a \<Rightarrow> Done a)"

definition idx :: "JsVal list \<Rightarrow> nat \<Rightarrow> JsVal" where
  "idx xs i = (if i < length xs then xs ! i else JUndefined)"

definition arrayOf :: "World \<Rightarrow> RunState \<Rightarrow> string \<Rightarrow> nat \<Rightarrow> JsVal list Comp" where
  "arrayOf w st v cnt = andThen (readVar st v) (\<lambda>a. getFloat64Array w a cnt)"

definition optArrayOf :: "World \<Rightarrow> RunState \<Rightarrow> string option \<Rightarrow> nat \<Rightarrow> JsVal list option Comp" where
  "optArrayOf w st v cnt =
     (case v of None \<Rightarrow> Done None
      | Some x \<Rightarrow> andThen (arrayOf w st x cnt) (\<lambda>xs. Done (Some xs)))"

definition toPos :: "JsVal list \<Rightarrow> JsVal" where
  "toPos arr =
     JObj [(''longitude'', idx arr 0), (''latitude'', idx arr 1), (''distance'', idx arr 2),
           (''longitudeSpeed'', idx arr 3), (''latitudeSpeed'', idx arr 4),
           (''distanceSpeed'', idx arr 5)]"

definition houseFields :: "JsVal list \<Rightarrow> (string \<times> JsVal) list" where
  "houseFields ascmc =
     [(''ascendant'', idx ascmc 0), (''mc'', idx ascmc 1), (''armc'', idx ascmc 2),
      (''vertex'', idx ascmc 3), (''equatorialAscendant'', idx ascmc 4),
      (''coAscendantKoch'', idx ascmc 5), (''coAscendantMunkasey'', idx ascmc 6),
      (''polarAscendant'', idx ascmc 7)]"

definition readField :: "World \<Rightarrow> RunState \<Rightarrow> string \<times> ReadFn \<times> string \<Rightarrow> (string \<times> JsVal) Comp" where
  "readField w st = (\<lambda>(propName, f, v).
     andThen (readVar st v) (\<lambda>a.
     andThen (case f of GetInt32 \<Rightarrow> getInt32 w a | GetFloat64 \<Rightarrow> getFloat64 w a) (\<lambda>x.
     Done (propName, x))))"

definition readInt32s :: "World \<Rightarrow> nat \<Rightarrow> nat \<Rightarrow> JsVal list Comp" where
  "readInt32s w ptr cnt = collect (map (\<lambda>i. getInt32 w (ptr + i * 4)) [0..<cnt])"

text \<open>The value of a single output, as the generic handling reads it.\<close>

definition readOutput :: "World \<Rightarrow> RunState \<Rightarrow> OutputType \<Rightarrow> string \<Rightarrow> JsVal Comp" where
  "readOutput w st t v =
     andThen (readVar st v) (\<lambda>a.
       case t of
         Float64 _ \<Rightarrow> getFloat64 w a
       | Int32 _ \<Rightarrow> getInt32 w a
       | StringBuf _ \<Rightarrow> getStringAt w a
       | Float64Array n _ \<Rightarrow> andThen (getFloat64Array w a n) (\<lambda>xs. Done (JArr xs))
       | Int32Array n _ \<Rightarrow> andThen (readInt32s w a n) (\<lambda>xs. Done (JArr xs))
       | ErrorBuf _ \<Rightarrow> Done JUndefined)"

definition hasMultiLine :: "OutputType \<Rightarrow> bool" where
  "hasMultiLine t = (case t of Int32Array _ _ \<Rightarrow> False | ErrorBuf _ \<Rightarrow> False | _ \<Rightarrow> True)"

text \<open>
  The value that the lines of a result construction return. The two constructions without
  a \<^verbatim>\<open>return\<close> line are dealt with in \<open>execStmt\<close>.
\<close>

definition evalShape :: "World \<Rightarrow> RunState \<Rightarrow> ResultShape \<Rightarrow> JsVal Comp" where
  "evalShape w st shape =
     (case shape of
        NoResult \<Rightarrow> Done JUndefined
      | ReturnRet \<Rightarrow> (case ret st of None \<Rightarrow> Throw ''ReferenceError'' | Some r \<Rightarrow> Done (JNum r))
      | PlanetPositionShape v \<Rightarrow> andThen (arrayOf w st v 6) (\<lambda>xx. Done (toPos xx))
      | FieldsShape fs \<Rightarrow> andThen (collect (map (readField w st) fs)) (\<lambda>xs. Done (JObj xs))
      | HouseShape c a \<Rightarrow>
          andThen (arrayOf w st c 13) (\<lambda>cusps.
          andThen (arrayOf w st a 10) (\<lambda>ascmc.
          Done (JObj ((''cusps'', JArr (drop 1 cusps)) # houseFields ascmc))))
      | HouseSpeedShape c a cs as \<Rightarrow>
          andThen (arrayOf w st c 13) (\<lambda>cusps.
          andThen (arrayOf w st a 10) (\<lambda>ascmc.
          andThen (optArrayOf w st cs 13) (\<lambda>cuspSpeeds.
          andThen (optArrayOf w st as 10) (\<lambda>ascmcSpeeds.
          Done (JObj ((''cusps'', JArr (drop 1 cusps)) # houseFields ascmc @
                      (case cuspSpeeds of None \<Rightarrow> []
                       | Some xs \<Rightarrow> [(''cuspSpeeds'', JArr (drop 1 xs))]) @
                      (case ascmcSpeeds of None \<Rightarrow> []
                       | Some xs \<Rightarrow> [(''ascmcSpeeds'', JArr xs)])))))))
      | JulianDayShape v \<Rightarrow>
          andThen (arrayOf w st v 2) (\<lambda>dret.
          Done (JObj [(''et'', idx dret 0), (''ut'', idx dret 1)]))
      | AzimuthAltitudeShape v \<Rightarrow>
          andThen (arrayOf w st v 3) (\<lambda>xaz.
          Done (JObj [(''azimuth'', idx xaz 0), (''trueAltitude'', idx xaz 1),
                      (''apparentAltitude'', idx xaz 2)]))
      | PhenomenaShape v \<Rightarrow>
          andThen (arrayOf w st v 20) (\<lambda>attr.
          Done (JObj [(''phaseAngle'', idx attr 0), (''phase'', idx attr 1),
                      (''elongation'', idx attr 2), (''apparentDiameter'', idx attr 3),
                      (''apparentMagnitude'', idx attr 4)]))
      | NodesApsidesShape \<Rightarrow>
          andThen (arrayOf w st ''xnascPtr'' 6) (\<lambda>xnasc.
          andThen (arrayOf w st ''xndscPtr'' 6) (\<lambda>xndsc.
          andThen (arrayOf w st ''xperiPtr'' 6) (\<lambda>xperi.
          andThen (arrayOf w st ''xaphePtr'' 6) (\<lambda>xaphe.
          Done (JObj [(''ascendingNode'', toPos xnasc), (''descendingNode'', toPos xndsc),
                      (''perihelion'', toPos xperi), (''aphelion'', toPos xaphe)])))))
      | OrbitalElementsShape v \<Rightarrow>
          andThen (arrayOf w st v 50) (\<lambda>xs. Done (JObj [(''elements'', JArr xs)]))
      | EclipseTimeShape t a \<Rightarrow>
          andThen (arrayOf w st t 10) (\<lambda>times.
          andThen (optArrayOf w st a 20) (\<lambda>attributes.
          Done (JObj ((''times'', JArr times) #
                      (case attributes of None \<Rightarrow> [] | Some xs \<Rightarrow> [(''attributes'', JArr xs)])))))
      | EclipseWhereShape g a \<Rightarrow>
          andThen (arrayOf w st g 10) (\<lambda>geopos.
          andThen (arrayOf w st a 20) (\<lambda>attributes.
          Done (JObj [(''geopos'', JArr geopos), (''attributes'', JArr attributes)])))
      | EclipseAttributesShape a \<Rightarrow>
          andThen (arrayOf w st a 20) (\<lambda>xs. Done (JObj [(''attributes'', JArr xs)]))
      | SingleShape t v \<Rightarrow> readOutput w st t v
      | MultiShape fs \<Rightarrow>
          andThen (collect (map (\<lambda>(propName, t, v).
                                  andThen (readOutput w st t v) (\<lambda>x. Done (propName, x)))
                               (filter (\<lambda>(propName, t, v). hasMultiLine t) fs)))
            (\<lambda>xs. Done (JObj xs)))"

text \<open>How a statement, or a list of statements, completes.\<close>

datatype Completion = Normal | Return JsVal | Raise string | NoTermination

definition hasReturnLine :: "ResultShape \<Rightarrow> bool" where
  "hasReturnLine shape =
     (case shape of NoResult \<Rightarrow> False | SingleShape (ErrorBuf _) _ \<Rightarrow> False | _ \<Rightarrow> True)"

definition fallbackMessage :: string where
  "fallbackMessage = ''Swiss Ephemeris error''"

text \<open>
  One statement. \<^verbatim>\<open>mem.allocString\<close> of src/helpers.ts encodes the text, calls the
  allocator and then writes the bytes at the address it got; writing beyond the end of the
  memory throws, after the allocator has been called.
\<close>

definition execStmt :: "World \<Rightarrow> Stmt \<Rightarrow> RunState \<Rightarrow> Completion \<times> RunState" where
  "execStmt w s st =
     (case s of
        Malloc v t \<Rightarrow>
          (let a = mallocAddr w (allocCount st)
           in (Normal, st\<lparr>vars := (vars st)(v \<mapsto> a), allocCount := allocCount st + 1,
                           trace := trace st @ [EvMalloc (outputBytes t) a]\<rparr>))
      | AllocString v p \<Rightarrow>
          (let a = mallocAddr w (allocCount st);
               st1 = st\<lparr>allocCount := allocCount st + 1, trace := trace st @ [EvAllocString a]\<rparr>
           in if a + encodedLength w p \<le> bufferLength w
              then (Normal, st1\<lparr>vars := (vars st)(v \<mapsto> a)\<rparr>)
              else (Raise ''RangeError'', st1))
      | Free v \<Rightarrow>
          (case vars st v of
             None \<Rightarrow> (Raise ''ReferenceError'', st)
           | Some a \<Rightarrow> (Normal, st\<lparr>trace := trace st @ [EvFree a]\<rparr>))
      | Call keep f args \<Rightarrow>
          (case native w of
             Diverge \<Rightarrow> (NoTermination, st)
           | Throw e \<Rightarrow> (Raise e, st)
           | Done r \<Rightarrow> (Normal, if keep then st\<lparr>ret := Some r\<rparr> else st))
      | CheckNegative v \<Rightarrow>
          (case ret st of
             None \<Rightarrow> (Raise ''ReferenceError'', st)
           | Some r \<Rightarrow>
               if r < 0
               then (case andThen (readVar st v) (getStringAt w) of
                       Diverge \<Rightarrow> (NoTermination, st)
                     | Throw e \<Rightarrow> (Raise e, st)
                     | Done errMsg \<Rightarrow>
                         (Raise (if errMsg = JStr [] then fallbackMessage
                                 else (case errMsg of JStr m \<Rightarrow> m | _ \<Rightarrow> fallbackMessage)), st))
               else (Normal, st))
      | Result shape \<Rightarrow>
          (if hasReturnLine shape
           then (case evalShape w st shape of
                   Diverge \<Rightarrow> (NoTermination, st)
                 | Throw e \<Rightarrow> (Raise e, st)
                 | Done x \<Rightarrow> (Return x, st))
           else (Normal, st)))"

fun execStmts :: "World \<Rightarrow> Stmt list \<Rightarrow> RunState \<Rightarrow> Completion \<times> RunState" where
  "execStmts w [] st = (Normal, st)"
| "execStmts w (s # ss) st =
     (case execStmt w s st of
        (Normal, st') \<Rightarrow> execStmts w ss st'
      | (c, st') \<Rightarrow> (c, st'))"

text \<open>
  One call of a wrapper: the allocations; then the statements of the body, inside
  \<^verbatim>\<open>try\<close> when there is an allocation; then, unless the body never completes, the
  \<^verbatim>\<open>finally\<close> block, whose own failure would replace the completion of the body.
\<close>

definition runWrapper :: "World \<Rightarrow> Wrapper \<Rightarrow> Completion \<times> RunState" where
  "runWrapper w wr =
     (case execStmts w (allocations wr) initState of
        (Normal, st1) \<Rightarrow>
          if allocations wr = [] then execStmts w (body wr) st1
          else (case execStmts w (body wr) st1 of
                  (NoTermination, st2) \<Rightarrow> (NoTermination, st2)
                | (c2, st2) \<Rightarrow>
                    (case execStmts w (frees wr) st2 of
                       (Normal, st3) \<Rightarrow> (c2, st3)
                     | (c3, st3) \<Rightarrow> (c3, st3)))
      | (c1, st1) \<Rightarrow> (c1, st1))"

text \<open>The addresses that a trace allocates, and those that it frees.\<close>

definition allocated :: "Event list \<Rightarrow> nat multiset" where
  "allocated tr =
     mset (concat (map (\<lambda>e. case e of EvMalloc n a \<Rightarrow> [a] | EvAllocString a \<Rightarrow> [a] | EvFree a \<Rightarrow> []) tr))"

definition freed :: "Event list \<Rightarrow> nat multiset" where
  "freed tr =
     mset (concat (map (\<lambda>e. case e of EvFree a \<Rightarrow> [a] | _ \<Rightarrow> []) tr))"

text \<open>The entries of a configuration, with the defaults of \<^verbatim>\<open>generateWrapperFunction\<close>.\<close>

definition outputsOf :: "FunctionConfig \<Rightarrow> (string \<times> OutputType) list" where
  "outputsOf config = (case outputs config of None \<Rightarrow> [] | Some os \<Rightarrow> os)"

definition inputStringsOf :: "FunctionConfig \<Rightarrow> string list" where
  "inputStringsOf config = (case inputStrings config of None \<Rightarrow> [] | Some ss \<Rightarrow> ss)"

definition returnModeOf :: "FunctionConfig \<Rightarrow> ReturnMode" where
  "returnModeOf config = (case returnType config of None \<Rightarrow> RNumber | Some m \<Rightarrow> m)"

section \<open>Notions for the claims about calls of a wrapper\<close>

text \<open>The parts of a wrapper, named after the variables of \<^verbatim>\<open>generateWrapperFunction\<close>.\<close>

definition readsOf :: "FunctionConfig \<Rightarrow> OutputRead list" where
  "readsOf cfg = map (\<lambda>(n, t). \<lparr>param = n, otype = t, varName = n @ ''Ptr''\<rparr>) (outputsOf cfg)"

definition shapeOf :: "FunctionConfig \<Rightarrow> ResultShape" where
  "shapeOf cfg = buildReturnShape (readsOf cfg) cfg (returnModeOf cfg)"

definition callArgs :: "FunctionDecl \<Rightarrow> FunctionConfig \<Rightarrow> string" where
  "callArgs fn cfg = join '', '' (map (callArg (outputsOf cfg) (inputStringsOf cfg)) (params fn))"

text \<open>The first output that is an error buffer, if there is one.\<close>

definition errorOutput :: "FunctionConfig \<Rightarrow> string option" where
  "errorOutput cfg = map_option fst (find (\<lambda>(n, t). isError t) (outputsOf cfg))"

definition checksReturn :: "FunctionConfig \<Rightarrow> bool" where
  "checksReturn cfg = (returnModeOf cfg = RCheckNegative \<or> returnModeOf cfg = RCheckError)"

text \<open>The pointer variables of a wrapper, in the order of their declarations.\<close>

definition ptrVars :: "FunctionConfig \<Rightarrow> string list" where
  "ptrVars cfg = map (\<lambda>n. n @ ''Ptr'') (map fst (outputsOf cfg) @ inputStringsOf cfg)"

definition allocCountOf :: "FunctionConfig \<Rightarrow> nat" where
  "allocCountOf cfg = length (outputsOf cfg) + length (inputStringsOf cfg)"

text \<open>
  The address of the error buffer: the allocations are made in the order of the outputs, so
  it is the address returned by the allocation whose number is the position of that output.
\<close>

definition errorAddr :: "World \<Rightarrow> FunctionConfig \<Rightarrow> nat" where
  "errorAddr w cfg = mallocAddr w (length (takeWhile (\<lambda>(n, t). \<not> isError t) (outputsOf cfg)))"

text \<open>Every text passed for an input string fits into the memory at the address allocated for it.\<close>

definition stringsFit :: "World \<Rightarrow> FunctionConfig \<Rightarrow> bool" where
  "stringsFit w cfg =
     list_all (\<lambda>(i, p). mallocAddr w i + encodedLength w p \<le> bufferLength w)
       (enumerate (length (outputsOf cfg)) (inputStringsOf cfg))"

text \<open>The allocator calls of the declarations of a wrapper, and the releases of its last block.\<close>

definition allocTrace :: "World \<Rightarrow> FunctionConfig \<Rightarrow> Event list" where
  "allocTrace w cfg =
     map (\<lambda>(i, (n, t)). EvMalloc (outputBytes t) (mallocAddr w i)) (enumerate 0 (outputsOf cfg)) @
     map (\<lambda>(i, p). EvAllocString (mallocAddr w i))
       (enumerate (length (outputsOf cfg)) (inputStringsOf cfg))"

definition freeTrace :: "World \<Rightarrow> FunctionConfig \<Rightarrow> Event list" where
  "freeTrace w cfg = map (\<lambda>i. EvFree (mallocAddr w i)) [0..<allocCountOf cfg]"

text \<open>Auxiliary notions on statements and traces.\<close>

definition allocVar :: "Stmt \<Rightarrow> string" where
  "allocVar s = (case s of Malloc v t \<Rightarrow> v | AllocString v p \<Rightarrow> v | _ \<Rightarrow> [])"

definition isAlloc :: "Stmt \<Rightarrow> bool" where
  "isAlloc s = (case s of Malloc v t \<Rightarrow> True | AllocString v p \<Rightarrow> True | _ \<Rightarrow> False)"

definition isPlain :: "Stmt \<Rightarrow> bool" where
  "isPlain s = (case s of Call k f a \<Rightarrow> True | CheckNegative v \<Rightarrow> True | Result r \<Rightarrow> True | _ \<Rightarrow> False)"

definition fitsAt :: "World \<Rightarrow> nat \<Rightarrow> Stmt \<Rightarrow> bool" where
  "fitsAt w k s =
     (case s of AllocString v p \<Rightarrow> mallocAddr w k + encodedLength w p \<le> bufferLength w | _ \<Rightarrow> True)"

definition allocEvent :: "World \<Rightarrow> nat \<Rightarrow> Stmt \<Rightarrow> Event" where
  "allocEvent w k s =
     (case s of Malloc v t \<Rightarrow> EvMalloc (outputBytes t) (mallocAddr w k)
      | _ \<Rightarrow> EvAllocString (mallocAddr w k))"

definition allocAddrs :: "Event list \<Rightarrow> nat list" where
  "allocAddrs tr =
     concat (map (\<lambda>e. case e of EvMalloc n a \<Rightarrow> [a] | EvAllocString a \<Rightarrow> [a] | EvFree a \<Rightarrow> []) tr)"

definition freeAddrs :: "Event list \<Rightarrow> nat list" where
  "freeAddrs tr = concat (map (\<lambda>e. case e of EvFree a \<Rightarrow> [a] | _ \<Rightarrow> []) tr)"

text \<open>
  Routines of the header, with the parameters that \<open>parseParams\<close> reads from their
  declarations, and worlds in which they are called.
\<close>

definition dateConversionDecl :: FunctionDecl where
  "dateConversionDecl =
     \<lparr>fnReturnType = ''int'', fname = ''swe_date_conversion'',
      params = parseParams ''int y, int m, int d, double utime, char c, double *tjd''\<rparr>"

definition housesDecl :: FunctionDecl where
  "housesDecl =
     \<lparr>fnReturnType = ''int'', fname = ''swe_houses'',
      params = parseParams ''double tjd_ut, double geolat, double geolon, int hsys, double *cusps, double *ascmc''\<rparr>"

definition fixstarDecl :: FunctionDecl where
  "fixstarDecl =
     \<lparr>fnReturnType = ''int32'', fname = ''swe_fixstar'',
      params = parseParams ''char *star, double tjd, int32 iflag, double *xx, char *serr''\<rparr>"

definition calcUtDecl :: FunctionDecl where
  "calcUtDecl =
     \<lparr>fnReturnType = ''int32'', fname = ''swe_calc_ut'',
      params = parseParams ''double tjd_ut, int32 ipl, int32 iflag, double *xx, char *serr''\<rparr>"

text \<open>
  A world in which the raw routine returns \<open>-1\<close>; the second allocation is at address 48,
  where the memory holds the text \<^verbatim>\<open>bad date\<close> and a zero byte.
\<close>

definition failingWorld :: World where
  "failingWorld =
     \<lparr>mallocAddr = (\<lambda>k. 48 * k), encodedLength = (\<lambda>p. 8), bufferLength = 65536,
      native = Done (- 1),
      memory = replicate 48 0 @ map of_char ''bad date'' @ [0, 0, 0, 0],
      f64At = (\<lambda>a. Some 2451545), i32At = (\<lambda>a. Some 0), decoder = latin1\<rparr>"

text \<open>The same world with an empty text in the error buffer.\<close>

definition silentWorld :: World where
  "silentWorld = failingWorld\<lparr>memory := replicate 64 0\<rparr>"

text \<open>A world whose memory of 64 bytes is too small for the text passed for an input string.\<close>

definition smallWorld :: World where
  "smallWorld = failingWorld\<lparr>encodedLength := (\<lambda>p. 200), bufferLength := 64, native := Done 0\<rparr>"

text \<open>
  A world for the house routines: the first allocation, at address 0, holds the thirteen
  numbers of \<open>cuspBuffer\<close>.
\<close>

definition cuspBuffer :: "real list" where
  "cuspBuffer = [0, 15, 45, 75, 105, 135, 165, 195, 225, 255, 285, 315, 345]"

definition houseWorld :: World where
  "houseWorld =
     \<lparr>mallocAddr = (\<lambda>k. 104 * k), encodedLength = (\<lambda>p. 1), bufferLength = 65536,
      native = Done 0, memory = [],
      f64At = (\<lambda>a. Some (if a < 104 \<and> a mod 8 = 0 then cuspBuffer ! (a div 8) else 0)),
      i32At = (\<lambda>a. Some 0), decoder = latin1\<rparr>"

section \<open>Properties of the memory helpers\<close>

lemma scanZero_found:
  "e \<le> z \<Longrightarrow> z < length mem \<Longrightarrow> mem ! z = 0 \<Longrightarrow> (\<And>i. e \<le> i \<Longrightarrow> i < z \<Longrightarrow> mem ! i \<noteq> 0)
   \<Longrightarrow> scanZero mem e = Some z"
proof (induction "z - e" arbitrary: e)
  case 0
  then have "e = z" by simp
  with 0 show ?case by (subst scanZero.simps) (simp add: byteAt_def)
next
  case (Suc k)
  then have lt: "e < z" by simp
  then have "mem ! e \<noteq> 0" using Suc.prems by simp
  moreover have "scanZero mem (e + 1) = Some z"
    using Suc.hyps(1)[of "e + 1"] Suc.hyps(2) Suc.prems lt by simp
  ultimately show ?case using lt Suc.prems by (subst scanZero.simps) (simp add: byteAt_def)
qed

lemma byteAt_zero: "byteAt mem e = Some 0 \<longleftrightarrow> e < length mem \<and> mem ! e = 0"
  by (simp add: byteAt_def)

lemma scanZero_Some_zero:
  assumes "scanZero mem e = Some z"
  shows "\<exists>i\<ge>e. i < length mem \<and> mem ! i = 0"
proof (rule scanZero.raw_induct[where P = "\<lambda>mem e z. \<exists>i\<ge>e. i < length mem \<and> mem ! i = 0", OF _ assms])
  fix sz :: "byte list \<Rightarrow> nat \<Rightarrow> nat option" and mem e z
  assume ih: "\<And>m b y. sz m b = Some y \<Longrightarrow> \<exists>i\<ge>b. i < length m \<and> m ! i = 0"
    and step: "(if byteAt mem e \<noteq> Some 0 then sz mem (e + 1) else Some e) = Some z"
  show "\<exists>i\<ge>e. i < length mem \<and> mem ! i = 0"
  proof (cases "byteAt mem e = Some 0")
    case False
    with step have "sz mem (e + 1) = Some z" by simp
    from ih[OF this] obtain i where i: "e + 1 \<le> i" "i < length mem" "mem ! i = 0" by blast
    from i(1) have "e \<le> i" by simp
    with i(2,3) show ?thesis by blast
  next
    case True
    then have "e < length mem" "mem ! e = 0" by (simp_all add: byteAt_zero)
    then show ?thesis by blast
  qed
qed

lemma scanZero_diverges:
  "(\<forall>i\<ge>e. i < length mem \<longrightarrow> mem ! i \<noteq> 0) \<Longrightarrow> scanZero mem e = None"
  using scanZero_Some_zero[of mem e] by (cases "scanZero mem e") auto

lemma first_zero_ex:
  assumes "\<exists>i\<ge>ptr. i < length mem \<and> mem ! i = (0::byte)"
  shows "\<exists>z\<ge>ptr. z < length mem \<and> mem ! z = 0 \<and> (\<forall>i. ptr \<le> i \<and> i < z \<longrightarrow> mem ! i \<noteq> 0)"
proof -
  define Q where "Q i \<longleftrightarrow> ptr \<le> i \<and> i < length mem \<and> mem ! i = 0" for i
  define z where "z = (LEAST i. Q i)"
  from assms have "\<exists>i. Q i" by (simp add: Q_def)
  then have "Q z" unfolding z_def by (rule LeastI_ex)
  then have z: "ptr \<le> z" "z < length mem" "mem ! z = 0" by (simp_all add: Q_def)
  have "mem ! i \<noteq> 0" if "ptr \<le> i" "i < z" for i
  proof -
    from that(2) have "\<not> Q i" unfolding z_def by (rule not_less_Least)
    moreover from that(2) z(2) have "i < length mem" by simp
    ultimately show ?thesis using that(1) by (simp add: Q_def)
  qed
  with z show ?thesis by blast
qed

lemma take_first_zero:
  assumes "ptr \<le> z" "z < length mem" "mem ! z = (0::byte)"
    and "\<forall>i. ptr \<le> i \<and> i < z \<longrightarrow> mem ! i \<noteq> 0"
  shows "take (z - ptr) (drop ptr mem) = takeWhile (\<lambda>b. b \<noteq> 0) (drop ptr mem)"
proof (rule sym, rule takeWhile_eq_take_P_nth)
  fix i assume "i < z - ptr" "i < length (drop ptr mem)"
  then show "drop ptr mem ! i \<noteq> 0" using assms by simp
next
  assume "z - ptr < length (drop ptr mem)"
  then show "\<not> drop ptr mem ! (z - ptr) \<noteq> 0" using assms by simp
qed

text \<open>
  Claim C10. When the memory holds a zero byte at some index at or after \<open>ptr\<close>,
  \<open>getString\<close> returns, and its result is the decoding of the bytes from \<open>ptr\<close> up to,
  and excluding, the first such zero byte. When there is no zero byte at or after \<open>ptr\<close>
  inside the buffer, the scan never stops: \<open>getString\<close> does not return.
\<close>

theorem getString_scan:
  "((\<exists>i\<ge>ptr. i < length mem \<and> mem ! i = 0) \<longrightarrow>
      getString decode mem ptr = Some (decode (takeWhile (\<lambda>b. b \<noteq> 0) (drop ptr mem)))) \<and>
   ((\<forall>i\<ge>ptr. i < length mem \<longrightarrow> mem ! i \<noteq> 0) \<longrightarrow> getString decode mem ptr = None)"
proof (intro conjI impI)
  assume "\<exists>i\<ge>ptr. i < length mem \<and> mem ! i = 0"
  from first_zero_ex[OF this] obtain z where z: "ptr \<le> z" "z < length mem" "mem ! z = 0"
    "\<forall>i. ptr \<le> i \<and> i < z \<longrightarrow> mem ! i \<noteq> 0" by blast
  then have "scanZero mem ptr = Some z" by (intro scanZero_found) auto
  with take_first_zero[OF z] show "getString decode mem ptr = Some (decode (takeWhile (\<lambda>b. b \<noteq> 0) (drop ptr mem)))"
    by (simp add: getString_def)
next
  assume "\<forall>i\<ge>ptr. i < length mem \<longrightarrow> mem ! i \<noteq> 0"
  then show "getString decode mem ptr = None"
    by (simp add: getString_def scanZero_diverges)
qed


theorem getString_scan_witness:
  "getString latin1 [0x58, 0x41, 0x42, 0, 0x43, 0] 1 = Some ''AB'' \<and>
   getString latin1 [0, 0x41, 0x42] 1 = None"
proof -
  have a: "\<exists>i\<ge>1. i < length [0x58, 0x41, 0x42, 0, 0x43, 0 :: byte] \<and> [0x58, 0x41, 0x42, 0, 0x43, 0 :: byte] ! i = 0"
    by (rule exI[of _ 3]) simp
  have b: "\<forall>i\<ge>1. i < length [0, 0x41, 0x42 :: byte] \<longrightarrow> [0, 0x41, 0x42 :: byte] ! i \<noteq> 0"
  proof (intro allI impI)
    fix i :: nat assume "1 \<le> i" "i < length [0, 0x41, 0x42 :: byte]"
    then have "i = 1 \<or> i = 2" by auto
    then show "[0, 0x41, 0x42 :: byte] ! i \<noteq> 0" by auto
  qed
  have c: "latin1 (takeWhile (\<lambda>b. b \<noteq> 0) (drop 1 [0x58, 0x41, 0x42, 0, 0x43, 0])) = ''AB''"
    by code_simp
  from getString_scan[of 1 "[0x58, 0x41, 0x42, 0, 0x43, 0]" latin1] a
  have "getString latin1 [0x58, 0x41, 0x42, 0, 0x43, 0] 1
      = Some (latin1 (takeWhile (\<lambda>b. b \<noteq> 0) (drop 1 [0x58, 0x41, 0x42, 0, 0x43, 0])))"
    by blast
  with c have "getString latin1 [0x58, 0x41, 0x42, 0, 0x43, 0] 1 = Some ''AB''"
    by (simp only:)
  moreover from getString_scan[of 1 "[0, 0x41, 0x42]" latin1] b
  have "getString latin1 [0, 0x41, 0x42] 1 = None" by blast
  ultimately show ?thesis by blast
qed

section \<open>Properties of the topological sort and the constants document\<close>

lemma byName_Some: "byName cs n = Some c \<Longrightarrow> c \<in> set cs \<and> name c = n"
  by (auto simp: byName_def dest!: map_of_SomeD)

lemma byName_None_iff: "byName cs n = None \<longleftrightarrow> n \<notin> name ` set cs"
  by (simp add: byName_def map_of_eq_None_iff image_image)

lemma firstPass_fold:
  "fold (\<lambda>c skipped. if P c then insert (name c) skipped else skipped) xs S
     = S \<union> name ` {c \<in> set xs. P c}"
  by (induction xs arbitrary: S) auto

lemma firstPass_iff:
  "n \<in> firstPass cs \<longleftrightarrow> (\<exists>c\<in>set cs. name c = n \<and> (\<exists>d\<in>set (dependencies c). d \<notin> name ` set cs))"
  unfolding firstPass_def firstPass_fold by (auto simp: list_ex_iff byName_None_iff)

lemma fold_skipStep_stable:
  "fold skipStep cs (s, ch) = (s', ch') \<Longrightarrow> \<not> ch' \<Longrightarrow>
     s' = s \<and> (\<forall>c\<in>set cs. (\<exists>d\<in>set (dependencies c). d \<in> s) \<longrightarrow> name c \<in> s)"
proof (induction cs arbitrary: s ch)
  case Nil
  then show ?case by simp
next
  case (Cons c cs)
  obtain s1 ch1 where step: "skipStep c (s, ch) = (s1, ch1)" by (cases "skipStep c (s, ch)")
  with Cons.prems have rest: "fold skipStep cs (s1, ch1) = (s', ch')" by simp
  from fold_skipStep_mono[OF rest] Cons.prems(2) have "\<not> ch1" by blast
  with step have s1: "s1 = s" and here: "(\<exists>d\<in>set (dependencies c). d \<in> s) \<longrightarrow> name c \<in> s"
    by (auto simp: skipStep_def list_ex_iff split: if_splits)
  from Cons.IH[OF rest Cons.prems(2)] s1 here show ?case by simp
qed

lemma skipLoop_props:
  "S \<subseteq> skipLoop cs S \<and>
   (\<forall>c\<in>set cs. (\<exists>d\<in>set (dependencies c). d \<in> skipLoop cs S) \<longrightarrow> name c \<in> skipLoop cs S)"
proof (induction cs S rule: skipLoop.induct)
  case (1 cs S)
  obtain S' ch where f: "fold skipStep cs (S, False) = (S', ch)"
    by (cases "fold skipStep cs (S, False)")
  show ?case
  proof (cases ch)
    case True
    with f have eq: "skipLoop cs S = skipLoop cs S'" by (subst skipLoop.simps) simp
    from 1[OF f[symmetric] True] fold_skipStep_mono[OF f] show ?thesis
      unfolding eq by blast
  next
    case False
    with f have eq: "skipLoop cs S = S'" by (subst skipLoop.simps) simp
    from fold_skipStep_stable[OF f] False show ?thesis unfolding eq by simp
  qed
qed

lemma skipLoop_closed:
  "c \<in> set cs \<Longrightarrow> d \<in> set (dependencies c) \<Longrightarrow> d \<in> skipLoop cs S \<Longrightarrow> name c \<in> skipLoop cs S"
  using skipLoop_props[of S cs] by blast

lemma skipLoop_superset: "n \<in> S \<Longrightarrow> n \<in> skipLoop cs S"
  using skipLoop_props[of S cs] by blast

lemma skipped_upward:
  assumes "(y, x) \<in> (dependsOn cs)\<^sup>*" and "name x \<in> skipLoop cs S"
  shows "name y \<in> skipLoop cs S"
  using assms
proof (induction rule: converse_rtrancl_induct)
  case base
  then show ?case by simp
next
  case (step y z)
  from step.hyps(1) have "y \<in> set cs" "name z \<in> set (dependencies y)"
    by (simp_all add: dependsOn_def)
  with step.IH[OF step.prems] show ?case by (rule skipLoop_closed[rotated 2])
qed

lemma visit_skip:
  "n \<in> visited st \<or> n \<in> inProgress st \<or> n \<in> sk \<or> byName cs n = None \<Longrightarrow> visit cs sk st n = st"
  by (auto simp: visit.simps)

lemma visit_step:
  "n \<notin> visited st \<Longrightarrow> n \<notin> inProgress st \<Longrightarrow> n \<notin> sk \<Longrightarrow> byName cs n = Some c \<Longrightarrow>
   visit cs sk st n =
     (let st2 = visitDeps cs sk (st\<lparr>inProgress := insert n (inProgress st)\<rparr>) (dependencies c)
      in st2\<lparr>inProgress := inProgress st2 - {n}, visited := insert n (visited st2),
             sorted_cs := sorted_cs st2 @ [c]\<rparr>)"
  by (simp add: visit.simps)

lemma settled_Nil: "settled cs sk []"
  by (simp add: settled_def)

lemma settled_append: "settled cs sk xs \<Longrightarrow> settledAt cs sk xs c \<Longrightarrow> settled cs sk (xs @ [c])"
  by (auto simp: settled_def nth_append less_Suc_eq)

lemma visit_post:
  "sortInv cs sk st \<Longrightarrow> \<forall>p\<in>inProgress st. (p, n) \<in> (depRel cs)\<^sup>* \<Longrightarrow>
     visitPost cs sk st (visit cs sk st n) [n]"
  "sortInv cs sk st \<Longrightarrow> \<forall>p\<in>inProgress st. \<forall>d\<in>set ds. (p, d) \<in> (depRel cs)\<^sup>* \<Longrightarrow>
     visitPost cs sk st (visitDeps cs sk st ds) ds"
proof (induction cs sk st n and cs sk st ds rule: visit_visitDeps.induct)
  case (1 cs sk st n)
  show ?case
  proof (cases "n \<in> visited st \<or> n \<in> inProgress st \<or> n \<in> sk \<or> byName cs n = None")
    case True
    then have "visit cs sk st n = st" by (rule visit_skip)
    with True "1.prems"(1) show ?thesis by (auto simp: visitPost_def)
  next
    case False
    then obtain c where c: "byName cs n = Some c" by auto
    from False have nv: "n \<notin> visited st" and np: "n \<notin> inProgress st" and ns: "n \<notin> sk" by auto
    from byName_Some[OF c] have cin: "c \<in> set cs" and cn: "name c = n" by auto
    let ?st1 = "st\<lparr>inProgress := insert n (inProgress st)\<rparr>"
    let ?st2 = "visitDeps cs sk ?st1 (dependencies c)"
    have i1: "sortInv cs sk ?st1" using "1.prems"(1) nv by (simp add: sortInv_def)
    have edge: "(n, d) \<in> depRel cs" if "d \<in> set (dependencies c)" for d
      using that cin cn by (auto simp: depRel_def)
    have pre1: "\<forall>p\<in>inProgress ?st1. \<forall>d\<in>set (dependencies c). (p, d) \<in> (depRel cs)\<^sup>*"
    proof (intro ballI)
      fix p d assume p: "p \<in> inProgress ?st1" and d: "d \<in> set (dependencies c)"
      from p "1.prems"(2) have "(p, n) \<in> (depRel cs)\<^sup>*" by auto
      with edge[OF d] show "(p, d) \<in> (depRel cs)\<^sup>*" by (rule rtrancl_into_rtrancl[rotated])
    qed
    have p2: "visitPost cs sk ?st1 ?st2 (dependencies c)"
      using nv np ns c i1 pre1 by (intro "1.IH") auto
    then have i2: "sortInv cs sk ?st2" and ip2: "inProgress ?st2 = insert n (inProgress st)"
      and v2: "visited st \<subseteq> visited ?st2"
      and d2: "\<forall>d\<in>set (dependencies c). d \<in> visited ?st2 \<or> d \<in> insert n (inProgress st) \<or> d \<in> sk \<or> byName cs d = None"
      by (simp_all add: visitPost_def)
    let ?st' = "?st2\<lparr>inProgress := inProgress ?st2 - {n}, visited := insert n (visited ?st2),
             sorted_cs := sorted_cs ?st2 @ [c]\<rparr>"
    have eq: "visit cs sk st n = ?st'" using visit_step[OF nv np ns c] by (simp add: Let_def)
    have nv2: "n \<notin> visited ?st2" using i2 ip2 by (auto simp: sortInv_def)
    have ga: "settledAt cs sk (sorted_cs ?st2) c"
      unfolding settledAt_def
    proof
      fix d assume d: "d \<in> set (dependencies c)"
      from d2 d consider "d \<in> visited ?st2" | "d = n" | "d \<in> inProgress st" | "d \<in> sk" | "byName cs d = None"
        by auto
      then show "d \<in> name ` set (sorted_cs ?st2) \<or> (d, name c) \<in> (depRel cs)\<^sup>* \<or> d \<in> sk \<or> byName cs d = None"
      proof cases
        case 1
        with i2 show ?thesis by (simp add: sortInv_def)
      next
        case 2
        then show ?thesis using cn by simp
      next
        case 3
        with "1.prems"(2) cn show ?thesis by auto
      qed auto
    qed
    have "sortInv cs sk ?st'"
      using i2 settled_append[OF _ ga] nv2 c cn ns by (auto simp: sortInv_def)
    moreover have "inProgress ?st' = inProgress st" using ip2 np by auto
    moreover have "visited st \<subseteq> visited ?st'" using v2 by auto
    ultimately show ?thesis unfolding eq by (simp add: visitPost_def)
  qed
next
  case (2 cs sk st)
  then show ?case by (simp add: visitPost_def)
next
  case (3 cs sk st dep deps)
  let ?st1 = "if byName cs dep \<noteq> None then visit cs sk st dep else st"
  have p1: "visitPost cs sk st ?st1 [dep]"
  proof (cases "byName cs dep \<noteq> None")
    case True
    with "3.IH"(1)[OF True "3.prems"(1)] "3.prems"(2) show ?thesis by simp
  next
    case False
    with "3.prems"(1) show ?thesis by (simp add: visitPost_def)
  qed
  then have i1: "sortInv cs sk ?st1" and ip1: "inProgress ?st1 = inProgress st" by (simp_all add: visitPost_def)
  have p2: "visitPost cs sk ?st1 (visitDeps cs sk ?st1 deps) deps"
    using "3.IH"(2)[OF i1] "3.prems"(2) ip1 by simp
  have eq: "visitDeps cs sk st (dep # deps) = visitDeps cs sk ?st1 deps" by simp
  from p1 p2 show ?case unfolding eq visitPost_def by (auto simp del: visitDeps.simps)
qed

lemma sortInv_emptyState: "sortInv cs sk emptyState"
  by (simp add: sortInv_def emptyState_def settled_Nil)

lemma fold_visit_inv:
  "sortInv cs sk st \<Longrightarrow> inProgress st = {} \<Longrightarrow>
     sortInv cs sk (fold (\<lambda>c st. if name c \<notin> sk then visit cs sk st (name c) else st) xs st) \<and>
     inProgress (fold (\<lambda>c st. if name c \<notin> sk then visit cs sk st (name c) else st) xs st) = {}"
proof (induction xs arbitrary: st)
  case Nil
  then show ?case by simp
next
  case (Cons x xs)
  let ?st1 = "if name x \<notin> sk then visit cs sk st (name x) else st"
  have "sortInv cs sk ?st1 \<and> inProgress ?st1 = {}"
  proof (cases "name x \<notin> sk")
    case True
    from visit_post(1)[OF Cons.prems(1), of "name x"] Cons.prems(2)
    have "visitPost cs sk st (visit cs sk st (name x)) [name x]" by simp
    with True Cons.prems(2) show ?thesis by (simp add: visitPost_def)
  next
    case False
    with Cons.prems show ?thesis by simp
  qed
  with Cons.IH[of ?st1] show ?case by simp
qed

lemma topologicalSort_inv:
  "\<exists>st. sortInv cs (skipLoop cs (firstPass cs)) st \<and> topologicalSort cs = sorted_cs st"
  unfolding topologicalSort_def Let_def
  using fold_visit_inv[OF sortInv_emptyState, of cs "skipLoop cs (firstPass cs)" cs]
  by (auto simp: emptyState_def)

lemma topologicalSort_member:
  assumes "c \<in> set (topologicalSort cs)"
  shows "byName cs (name c) = Some c" "name c \<notin> skipLoop cs (firstPass cs)" "c \<in> set cs"
proof -
  from topologicalSort_inv[of cs] obtain st where
    st: "sortInv cs (skipLoop cs (firstPass cs)) st" "topologicalSort cs = sorted_cs st" by blast
  with assms show "byName cs (name c) = Some c" "name c \<notin> skipLoop cs (firstPass cs)"
    by (auto simp: sortInv_def)
  then show "c \<in> set cs" using byName_Some by blast
qed





lemma groupsOf_fold:
  "fold addToGroup xs m g =
     (let old = (case m g of None \<Rightarrow> [] | Some ys \<Rightarrow> ys);
          new = filter (\<lambda>c. categorizeConstant (name c) = g) xs
      in if new = [] then m g else Some (old @ new))"
proof (induction xs arbitrary: m)
  case Nil
  then show ?case by simp
next
  case (Cons x xs)
  show ?case
    by (simp add: Cons.IH Let_def) (simp add: addToGroup_def Let_def)
qed

lemma groupsOf_members:
  "(case groupsOf xs g of None \<Rightarrow> [] | Some ys \<Rightarrow> ys) = filter (\<lambda>c. categorizeConstant (name c) = g) xs"
  by (simp add: groupsOf_def groupsOf_fold Let_def)

lemma emittedConstants_filter:
  "emittedConstants cs =
     concat (map (\<lambda>g. filter (\<lambda>c. categorizeConstant (name c) = g) (topologicalSort cs)) groupOrder)"
  by (simp add: emittedConstants_def Let_def groupsOf_members)

lemma categorizeConstant_in_groupOrder: "categorizeConstant n \<in> set groupOrder"
  by (simp add: categorizeConstant_def groupOrder_def)

lemma distinct_groupOrder: "distinct groupOrder"
  by (simp add: groupOrder_def)

lemma set_emittedConstants: "set (emittedConstants cs) = set (topologicalSort cs)"
  using categorizeConstant_in_groupOrder by (auto simp: emittedConstants_filter)




lemma isConstLine_lines:
  "filter (prefix ''export const '') (generateConstantsLines cs) = map constLine (emittedConstants cs)"
proof -
  have c: "prefix ''export const '' (constLine x)" for x by (simp add: constLine_def)
  have h: "filter (prefix ''export const '') constantsHeader = []" by (simp add: constantsHeader_def)
  have g: "filter (prefix ''export const '') (groupLines m g) =
      map constLine (case m g of None \<Rightarrow> [] | Some ys \<Rightarrow> ys)" for m g
    by (auto simp: groupLines_def c filter_id_conv split: option.splits)
  show ?thesis
    by (simp add: generateConstantsLines_def emittedConstants_def Let_def h filter_concat map_concat
        comp_def g)
qed


text \<open>
  Claim C4. When a constant \<open>x\<close> of the input has a dependency whose name no constant of
  the input bears, then no constant \<open>y\<close> that depends on \<open>x\<close> through any number of steps
  (\<open>x\<close> itself included) is named in the output of the topological sort, nor in the
  constants document.
\<close>

theorem exclusion_closure:
  assumes "x \<in> set cs" and "d \<in> set (dependencies x)" and "d \<notin> name ` set cs"
    and "(y, x) \<in> (dependsOn cs)\<^sup>*"
  shows "name y \<notin> name ` set (topologicalSort cs) \<and> name y \<notin> name ` set (emittedConstants cs)"
proof -
  from assms(1-3) have "name x \<in> firstPass cs" by (auto simp: firstPass_iff)
  then have "name x \<in> skipLoop cs (firstPass cs)" by (rule skipLoop_superset)
  with assms(4) have "name y \<in> skipLoop cs (firstPass cs)" by (rule skipped_upward)
  then have "name y \<notin> name ` set (topologicalSort cs)"
    using topologicalSort_member(2) by force
  then show ?thesis by (simp add: set_emittedConstants)
qed



text \<open>Claim C4 at a concrete input: only the third constant is kept.\<close>

theorem exclusion_closure_witness:
  "''Y_DEP'' \<notin> name ` set (topologicalSort [badC, usesBadC, fineC]) \<and>
   ''Y_DEP'' \<notin> name ` set (emittedConstants [badC, usesBadC, fineC])"
proof -
  have x: "badC \<in> set [badC, usesBadC, fineC]" by simp
  have d: "''MISSING'' \<in> set (dependencies badC)" by (simp add: badC_def mkConst_def)
  have m: "''MISSING'' \<notin> name ` set [badC, usesBadC, fineC]"
    by (simp add: badC_def usesBadC_def fineC_def mkConst_def)
  have "(usesBadC, badC) \<in> dependsOn [badC, usesBadC, fineC]"
    by (simp add: dependsOn_def badC_def usesBadC_def mkConst_def)
  then have r: "(usesBadC, badC) \<in> (dependsOn [badC, usesBadC, fineC])\<^sup>*" by (rule r_into_rtrancl)
  have nm: "name usesBadC = ''Y_DEP''" by (simp add: usesBadC_def mkConst_def)
  from exclusion_closure[OF x d m r] show ?thesis unfolding nm .
qed

lemma exclusion_example_output: "map name (topologicalSort [badC, usesBadC, fineC]) = [''Z_OK'']"
  by code_simp
section \<open>Properties of the parameter parser\<close>





















section \<open>Properties of the dependency extraction\<close>




















section \<open>Calls of a wrapper\<close>

subsection \<open>Allocations, plain statements and releases\<close>

lemma allocated_append: "allocated (xs @ ys) = allocated xs + allocated ys"
  by (simp add: allocated_def)

lemma freed_append: "freed (xs @ ys) = freed xs + freed ys"
  by (simp add: freed_def)

lemma execStmt_alloc:
  assumes "isAlloc s" and "fitsAt w (allocCount st) s"
  shows "execStmt w s st =
     (Normal, st\<lparr>vars := (vars st)(allocVar s \<mapsto> mallocAddr w (allocCount st)),
                 allocCount := allocCount st + 1,
                 trace := trace st @ [allocEvent w (allocCount st) s]\<rparr>)"
  using assms
  by (cases s) (simp_all add: execStmt_def isAlloc_def allocVar_def fitsAt_def allocEvent_def Let_def)

lemma allocEvent_allocated: "isAlloc s \<Longrightarrow> allocated [allocEvent w k s] = {#mallocAddr w k#}"
  by (cases s) (simp_all add: allocated_def allocEvent_def isAlloc_def)

lemma allocEvent_freed: "isAlloc s \<Longrightarrow> freed [allocEvent w k s] = {#}"
  by (cases s) (simp_all add: freed_def allocEvent_def isAlloc_def)

lemma execStmts_allocs:
  assumes "\<forall>s\<in>set as. isAlloc s"
    and "\<forall>i<length as. fitsAt w (allocCount st + i) (as ! i)"
  shows "\<exists>st'. execStmts w as st = (Normal, st') \<and>
     allocCount st' = allocCount st + length as \<and> ret st' = ret st \<and>
     trace st' = trace st @ map (\<lambda>(i, s). allocEvent w i s) (enumerate (allocCount st) as) \<and>
     (\<forall>v. v \<notin> allocVar ` set as \<longrightarrow> vars st' v = vars st v) \<and>
     (distinct (map allocVar as) \<longrightarrow>
        (\<forall>i<length as. vars st' (allocVar (as ! i)) = Some (mallocAddr w (allocCount st + i)))) \<and>
     (as = [] \<longrightarrow> st' = st)"
  using assms
proof (induction as arbitrary: st)
  case Nil
  then show ?case by simp
next
  case (Cons s as)
  let ?a = "mallocAddr w (allocCount st)"
  let ?st1 = "st\<lparr>vars := (vars st)(allocVar s \<mapsto> ?a), allocCount := allocCount st + 1,
                 trace := trace st @ [allocEvent w (allocCount st) s]\<rparr>"
  from Cons.prems have s: "isAlloc s" and rest: "\<forall>s\<in>set as. isAlloc s" by simp_all
  from Cons.prems(2) have f0: "fitsAt w (allocCount st) s" by fastforce
  have frest: "\<forall>i<length as. fitsAt w (allocCount ?st1 + i) (as ! i)"
  proof (intro allI impI)
    fix i assume "i < length as"
    then have "Suc i < length (s # as)" by simp
    with Cons.prems(2) have "fitsAt w (allocCount st + Suc i) ((s # as) ! Suc i)" by blast
    then show "fitsAt w (allocCount ?st1 + i) (as ! i)" by simp
  qed
  have step: "execStmt w s st = (Normal, ?st1)" by (rule execStmt_alloc[OF s f0])
  from Cons.IH[OF rest frest] obtain st' where st':
    "execStmts w as ?st1 = (Normal, st')"
    "allocCount st' = allocCount ?st1 + length as" "ret st' = ret ?st1"
    "trace st' = trace ?st1 @ map (\<lambda>(i, s). allocEvent w i s) (enumerate (allocCount ?st1) as)"
    "\<forall>v. v \<notin> allocVar ` set as \<longrightarrow> vars st' v = vars ?st1 v"
    "distinct (map allocVar as) \<longrightarrow>
        (\<forall>i<length as. vars st' (allocVar (as ! i)) = Some (mallocAddr w (allocCount ?st1 + i)))"
    by blast
  have run: "execStmts w (s # as) st = (Normal, st')" using step st'(1) by simp
  have cnt: "allocCount st' = allocCount st + length (s # as)" using st'(2) by simp
  have tr: "trace st' = trace st @ map (\<lambda>(i, s). allocEvent w i s) (enumerate (allocCount st) (s # as))"
    using st'(4) by simp
  have other: "\<forall>v. v \<notin> allocVar ` set (s # as) \<longrightarrow> vars st' v = vars st v"
    using st'(5) by auto
  have dist: "distinct (map allocVar (s # as)) \<longrightarrow>
        (\<forall>i<length (s # as). vars st' (allocVar ((s # as) ! i)) = Some (mallocAddr w (allocCount st + i)))"
  proof (intro impI allI)
    fix i assume d: "distinct (map allocVar (s # as))" and i: "i < length (s # as)"
    show "vars st' (allocVar ((s # as) ! i)) = Some (mallocAddr w (allocCount st + i))"
    proof (cases i)
      case 0
      from d have "allocVar s \<notin> allocVar ` set as" by simp
      with st'(5) 0 show ?thesis by simp
    next
      case (Suc j)
      with d i st'(6) show ?thesis by simp
    qed
  qed
  from run cnt st'(3) tr other dist show ?case by simp
qed

lemma allocated_allocAddrs: "allocated tr = mset (allocAddrs tr)"
  by (simp add: allocated_def allocAddrs_def)

lemma freed_freeAddrs: "freed tr = mset (freeAddrs tr)"
  by (simp add: freed_def freeAddrs_def)

lemma allocAddrs_append: "allocAddrs (xs @ ys) = allocAddrs xs @ allocAddrs ys"
  by (simp add: allocAddrs_def)

lemma freeAddrs_append: "freeAddrs (xs @ ys) = freeAddrs xs @ freeAddrs ys"
  by (simp add: freeAddrs_def)

lemma allocAddrs_allocEvent: "isAlloc s \<Longrightarrow> allocAddrs [allocEvent w k s] = [mallocAddr w k]"
  by (cases s) (simp_all add: allocAddrs_def allocEvent_def isAlloc_def)

lemma freeAddrs_allocEvent: "isAlloc s \<Longrightarrow> freeAddrs [allocEvent w k s] = []"
  by (cases s) (simp_all add: freeAddrs_def allocEvent_def isAlloc_def)

lemma allocAddrs_allocEvents:
  "\<forall>s\<in>set as. isAlloc s \<Longrightarrow>
   allocAddrs (map (\<lambda>(i, s). allocEvent w i s) (enumerate k as)) = map (mallocAddr w) [k..<k + length as]"
proof (induction as arbitrary: k)
  case Nil
  then show ?case by (simp add: allocAddrs_def)
next
  case (Cons s as)
  have u: "[k..<k + length (s # as)] = k # [Suc k..<Suc k + length as]" by (simp add: upt_rec)
  have "map (\<lambda>(i, s). allocEvent w i s) (enumerate k (s # as))
      = [allocEvent w k s] @ map (\<lambda>(i, s). allocEvent w i s) (enumerate (Suc k) as)"
    by simp
  then have "allocAddrs (map (\<lambda>(i, s). allocEvent w i s) (enumerate k (s # as)))
      = allocAddrs [allocEvent w k s] @ allocAddrs (map (\<lambda>(i, s). allocEvent w i s) (enumerate (Suc k) as))"
    by (simp only: allocAddrs_append)
  also have "\<dots> = [mallocAddr w k] @ map (\<lambda>a. mallocAddr w a) [Suc k..<Suc k + length as]"
    using Cons.prems Cons.IH[of "Suc k"] allocAddrs_allocEvent[of s w k] by simp
  finally show ?case unfolding u by simp
qed

lemma freeAddrs_allocEvents:
  "\<forall>s\<in>set as. isAlloc s \<Longrightarrow> freeAddrs (map (\<lambda>(i, s). allocEvent w i s) (enumerate k as)) = []"
proof (induction as arbitrary: k)
  case Nil
  then show ?case by (simp add: freeAddrs_def)
next
  case (Cons s as)
  have "map (\<lambda>(i, s). allocEvent w i s) (enumerate k (s # as))
      = [allocEvent w k s] @ map (\<lambda>(i, s). allocEvent w i s) (enumerate (Suc k) as)"
    by simp
  then have "freeAddrs (map (\<lambda>(i, s). allocEvent w i s) (enumerate k (s # as)))
      = freeAddrs [allocEvent w k s] @ freeAddrs (map (\<lambda>(i, s). allocEvent w i s) (enumerate (Suc k) as))"
    by (simp only: freeAddrs_append)
  also have "\<dots> = []"
    using Cons.prems Cons.IH[of "Suc k"] freeAddrs_allocEvent[of s w k] by simp
  finally show ?case .
qed

lemma execStmt_plain:
  assumes "isPlain s" and "execStmt w s st = (c, st')"
  shows "vars st' = vars st \<and> trace st' = trace st \<and> allocCount st' = allocCount st"
  using assms
  by (cases s) (auto simp: execStmt_def isPlain_def split: Comp.splits option.splits if_splits)

lemma execStmts_plain:
  assumes "\<forall>s\<in>set bs. isPlain s" and "execStmts w bs st = (c, st')"
  shows "vars st' = vars st \<and> trace st' = trace st \<and> allocCount st' = allocCount st"
  using assms
proof (induction bs arbitrary: st)
  case Nil
  then show ?case by simp
next
  case (Cons b bs)
  obtain c1 st1 where s1: "execStmt w b st = (c1, st1)" by (cases "execStmt w b st")
  from Cons.prems(1) have "isPlain b" by simp
  from execStmt_plain[OF this s1] have eq1: "vars st1 = vars st" "trace st1 = trace st"
    "allocCount st1 = allocCount st" by simp_all
  show ?case
  proof (cases "c1 = Normal")
    case True
    with s1 Cons.prems(2) have "execStmts w bs st1 = (c, st')" by simp
    from Cons.IH[OF _ this] Cons.prems(1) eq1 show ?thesis by simp
  next
    case False
    with s1 Cons.prems(2) have "st' = st1" by (cases c1) simp_all
    with eq1 show ?thesis by simp
  qed
qed

lemma execStmts_frees:
  assumes "\<forall>v\<in>set vs. vars st v \<noteq> None"
  shows "execStmts w (map Free vs) st =
     (Normal, st\<lparr>trace := trace st @ map (\<lambda>v. EvFree (the (vars st v))) vs\<rparr>)"
  using assms
proof (induction vs arbitrary: st)
  case Nil
  then show ?case by simp
next
  case (Cons v vs)
  from Cons.prems obtain a where a: "vars st v = Some a" by auto
  let ?st1 = "st\<lparr>trace := trace st @ [EvFree a]\<rparr>"
  have "execStmt w (Free v) st = (Normal, ?st1)" using a by (simp add: execStmt_def)
  moreover have "\<forall>v\<in>set vs. vars ?st1 v \<noteq> None" using Cons.prems by simp
  from Cons.IH[OF this] have "execStmts w (map Free vs) ?st1 =
     (Normal, ?st1\<lparr>trace := trace ?st1 @ map (\<lambda>v. EvFree (the (vars ?st1 v))) vs\<rparr>)" .
  ultimately show ?case using a by simp
qed

lemma allocAddrs_frees: "allocAddrs (map (\<lambda>v. EvFree (f v)) vs) = []"
  by (induction vs) (simp_all add: allocAddrs_def)

lemma freeAddrs_frees: "freeAddrs (map (\<lambda>v. EvFree (f v)) vs) = map f vs"
  by (induction vs) (simp_all add: freeAddrs_def)

subsection \<open>The statements of a synthesized wrapper\<close>

lemma find_reads:
  "find (\<lambda>r. isError (otype r))
             (map (\<lambda>(n, t). \<lparr>param = n, otype = t, varName = n @ ''Ptr''\<rparr>) outs)
         = map_option (\<lambda>(n, t). \<lparr>param = n, otype = t, varName = n @ ''Ptr''\<rparr>)
             (find (\<lambda>(n, t). isError t) outs)"
  by (induction outs) auto

lemma wrapper_body0:
  "body (wrapperOf fn cfg) =
     [Call (returnModeOf cfg \<noteq> RVoid) (fname fn)
        (join '', '' (map (callArg (outputsOf cfg) (inputStringsOf cfg)) (params fn)))] @
     (if returnModeOf cfg = RCheckNegative \<or> returnModeOf cfg = RCheckError
      then (case find (\<lambda>r. isError (otype r)) (map (\<lambda>(n, t). \<lparr>param = n, otype = t, varName = n @ ''Ptr''\<rparr>) (outputsOf cfg)) of
              Some e \<Rightarrow> [CheckNegative (varName e)] | None \<Rightarrow> [])
      else []) @
     [Result (buildReturnShape
                (map (\<lambda>(n, t). \<lparr>param = n, otype = t, varName = n @ ''Ptr''\<rparr>) (outputsOf cfg))
                cfg (returnModeOf cfg))]"
  by (simp add: wrapperOf_def Let_def outputsOf_def inputStringsOf_def returnModeOf_def)

lemma wrapper_body:
  "body (wrapperOf fn cfg) =
     [Call (returnModeOf cfg \<noteq> RVoid) (fname fn) (callArgs fn cfg)] @
     (if checksReturn cfg
      then (case errorOutput cfg of Some e \<Rightarrow> [CheckNegative (e @ ''Ptr'')] | None \<Rightarrow> [])
      else []) @
     [Result (shapeOf cfg)]"
  apply (simp only: wrapper_body0 find_reads shapeOf_def readsOf_def callArgs_def errorOutput_def checksReturn_def)
  apply (cases "find (\<lambda>(n, t). isError t) (outputsOf cfg)")
   apply simp
  apply (case_tac a)
  apply simp
  done

lemma wrapper_body_isPlain: "x \<in> set (body (wrapperOf fn cfg)) \<Longrightarrow> isPlain x"
  unfolding wrapper_body
  by (cases "checksReturn cfg"; cases "errorOutput cfg") (auto simp: isPlain_def)

lemma wrapper_allocations:
  "allocations (wrapperOf fn cfg) =
     map (\<lambda>(n, t). Malloc (n @ ''Ptr'') t) (outputsOf cfg) @
     map (\<lambda>n. AllocString (n @ ''Ptr'') n) (inputStringsOf cfg)"
  by (simp add: wrapperOf_def Let_def outputsOf_def inputStringsOf_def)

lemma wrapper_frees: "frees (wrapperOf fn cfg) = map Free (ptrVars cfg)"
  by (simp add: wrapperOf_def Let_def outputsOf_def inputStringsOf_def ptrVars_def case_prod_beta comp_def)

lemma wrapper_allocVars: "map allocVar (allocations (wrapperOf fn cfg)) = ptrVars cfg"
  by (simp add: wrapper_allocations ptrVars_def allocVar_def case_prod_beta comp_def)

lemma wrapper_allocs_isAlloc: "\<forall>s\<in>set (allocations (wrapperOf fn cfg)). isAlloc s"
  by (auto simp: wrapper_allocations isAlloc_def)

lemma length_allocations: "length (allocations (wrapperOf fn cfg)) = allocCountOf cfg"
  by (simp add: wrapper_allocations allocCountOf_def)

lemma length_ptrVars: "length (ptrVars cfg) = allocCountOf cfg"
  by (simp add: ptrVars_def allocCountOf_def)

lemma ptrVars_distinct:
  "distinct (ptrVars cfg) \<longleftrightarrow> distinct (map fst (outputsOf cfg) @ inputStringsOf cfg)"
proof -
  have "inj_on (\<lambda>n. n @ ''Ptr'') A" for A :: "string set" by (simp add: inj_on_def)
  then show ?thesis unfolding ptrVars_def distinct_map by blast
qed

lemma enumerate_map_snd: "enumerate k (map f xs) = map (\<lambda>(i, x). (i, f x)) (enumerate k xs)"
  by (induction xs arbitrary: k) simp_all

lemma enumerate_app: "enumerate k (xs @ ys) = enumerate k xs @ enumerate (k + length xs) ys"
  by (induction xs arbitrary: k) simp_all

lemma wrapper_allocEvents:
  "map (\<lambda>(i, s). allocEvent w i s) (enumerate 0 (allocations (wrapperOf fn cfg))) = allocTrace w cfg"
  by (simp add: wrapper_allocations enumerate_app enumerate_map_snd allocTrace_def allocEvent_def
      case_prod_beta comp_def)

lemma wrapper_fits:
  assumes "stringsFit w cfg"
  shows "\<forall>i<length (allocations (wrapperOf fn cfg)). fitsAt w (0 + i) (allocations (wrapperOf fn cfg) ! i)"
proof (intro allI impI)
  fix i assume i: "i < length (allocations (wrapperOf fn cfg))"
  let ?outs = "outputsOf cfg" and ?ins = "inputStringsOf cfg"
  show "fitsAt w (0 + i) (allocations (wrapperOf fn cfg) ! i)"
  proof (cases "i < length ?outs")
    case True
    then show ?thesis
      by (simp add: wrapper_allocations nth_append fitsAt_def case_prod_beta)
  next
    case False
    define j where "j = i - length ?outs"
    from False i have j: "j < length ?ins" and ij: "i = length ?outs + j"
      by (simp_all add: j_def wrapper_allocations)
    from assms j have "mallocAddr w (length ?outs + j) + encodedLength w (?ins ! j) \<le> bufferLength w"
      by (simp add: stringsFit_def list_all_length nth_enumerate_eq)
    with False j ij show ?thesis
      by (simp add: wrapper_allocations nth_append fitsAt_def)
  qed
qed

lemma run_allocations:
  assumes d: "distinct (ptrVars cfg)" and f: "stringsFit w cfg"
  shows "\<exists>st1. execStmts w (allocations (wrapperOf fn cfg)) initState = (Normal, st1) \<and>
     ret st1 = None \<and> trace st1 = allocTrace w cfg \<and>
     (\<forall>i<allocCountOf cfg. vars st1 (ptrVars cfg ! i) = Some (mallocAddr w i)) \<and>
     (allocCountOf cfg = 0 \<longrightarrow> st1 = initState)"
proof -
  let ?as = "allocations (wrapperOf fn cfg)"
  have fit: "\<forall>i<length ?as. fitsAt w (allocCount initState + i) (?as ! i)"
    using wrapper_fits[OF f, of fn] by (simp add: initState_def)
  from execStmts_allocs[OF wrapper_allocs_isAlloc fit] obtain st1 where all:
    "execStmts w ?as initState = (Normal, st1) \<and>
     allocCount st1 = allocCount initState + length ?as \<and> ret st1 = ret initState \<and>
     trace st1 = trace initState @ map (\<lambda>(i, s). allocEvent w i s) (enumerate (allocCount initState) ?as) \<and>
     (\<forall>v. v \<notin> allocVar ` set ?as \<longrightarrow> vars st1 v = vars initState v) \<and>
     (distinct (map allocVar ?as) \<longrightarrow>
        (\<forall>i<length ?as. vars st1 (allocVar (?as ! i)) = Some (mallocAddr w (allocCount initState + i)))) \<and>
     (?as = [] \<longrightarrow> st1 = initState)" ..
  from all have run: "execStmts w ?as initState = (Normal, st1)" by (rule conjunct1)
  from all have r0: "ret st1 = ret initState" by (elim conjE)
  from all have t0: "trace st1 = trace initState @ map (\<lambda>(i, s). allocEvent w i s) (enumerate (allocCount initState) ?as)"
    by (elim conjE)
  from all have v0: "distinct (map allocVar ?as) \<longrightarrow>
        (\<forall>i<length ?as. vars st1 (allocVar (?as ! i)) = Some (mallocAddr w (allocCount initState + i)))"
    by (elim conjE)
  from all have e0: "?as = [] \<longrightarrow> st1 = initState" by (elim conjE)
  have c0: "allocCount initState = 0" by (simp add: initState_def)
  have dd: "distinct (map allocVar ?as)" using d by (simp only: wrapper_allocVars)
  have v: "\<forall>i<allocCountOf cfg. vars st1 (ptrVars cfg ! i) = Some (mallocAddr w i)"
  proof (intro allI impI)
    fix i assume i: "i < allocCountOf cfg"
    then have il: "i < length ?as" by (simp only: length_allocations)
    from v0 dd il have "vars st1 (allocVar (?as ! i)) = Some (mallocAddr w (allocCount initState + i))"
      by blast
    moreover have "allocVar (?as ! i) = map allocVar ?as ! i" using il by (rule nth_map[symmetric])
    ultimately show "vars st1 (ptrVars cfg ! i) = Some (mallocAddr w i)"
      by (simp only: wrapper_allocVars c0 add_0)
  qed
  have e: "allocCountOf cfg = 0 \<longrightarrow> st1 = initState"
  proof
    assume "allocCountOf cfg = 0"
    then have "length ?as = 0" by (simp only: length_allocations)
    then have "?as = []" by simp
    with e0 show "st1 = initState" by blast
  qed
  have t: "trace st1 = allocTrace w cfg"
    unfolding t0 c0 wrapper_allocEvents by (simp add: initState_def)
  have r: "ret st1 = None" unfolding r0 by (simp add: initState_def)
  from run r t v e show ?thesis by (intro exI[of _ st1] conjI)
qed

subsection \<open>One call of a wrapper\<close>

lemma run_frees:
  assumes v: "\<forall>i<allocCountOf cfg. vars st (ptrVars cfg ! i) = Some (mallocAddr w i)"
  shows "execStmts w (frees (wrapperOf fn cfg)) st = (Normal, st\<lparr>trace := trace st @ freeTrace w cfg\<rparr>)"
proof -
  have b: "\<forall>x\<in>set (ptrVars cfg). vars st x \<noteq> None"
  proof
    fix x assume "x \<in> set (ptrVars cfg)"
    then obtain i where "i < length (ptrVars cfg)" "x = ptrVars cfg ! i" by (auto simp: in_set_conv_nth)
    with v show "vars st x \<noteq> None" by (simp add: length_ptrVars)
  qed
  have "map (\<lambda>x. EvFree (the (vars st x))) (ptrVars cfg) = freeTrace w cfg"
    unfolding freeTrace_def
  proof (rule nth_equalityI)
    show "length (map (\<lambda>x. EvFree (the (vars st x))) (ptrVars cfg))
        = length (map (\<lambda>i. EvFree (mallocAddr w i)) [0..<allocCountOf cfg])"
      by (simp add: length_ptrVars)
  next
    fix i assume "i < length (map (\<lambda>x. EvFree (the (vars st x))) (ptrVars cfg))"
    then have i: "i < allocCountOf cfg" by (simp add: length_ptrVars)
    with v have "vars st (ptrVars cfg ! i) = Some (mallocAddr w i)" by blast
    with i show "map (\<lambda>x. EvFree (the (vars st x))) (ptrVars cfg) ! i
        = map (\<lambda>i. EvFree (mallocAddr w i)) [0..<allocCountOf cfg] ! i"
      by (simp add: length_ptrVars)
  qed
  with execStmts_frees[OF b, of w] show ?thesis by (simp only: wrapper_frees)
qed

lemma run_wrapper:
  assumes a: "execStmts w (allocations (wrapperOf fn cfg)) initState = (Normal, st1)"
    and v: "\<forall>i<allocCountOf cfg. vars st1 (ptrVars cfg ! i) = Some (mallocAddr w i)"
    and b: "execStmts w (body (wrapperOf fn cfg)) st1 = (c2, st2)"
  shows "runWrapper w (wrapperOf fn cfg) =
     (if allocCountOf cfg = 0 \<or> c2 = NoTermination then (c2, st2)
      else (c2, st2\<lparr>trace := trace st2 @ freeTrace w cfg\<rparr>))"
    and "trace st2 = trace st1"
proof -
  have plain: "\<forall>s\<in>set (body (wrapperOf fn cfg)). isPlain s"
    using wrapper_body_isPlain by blast
  from execStmts_plain[OF plain b] have same: "vars st2 = vars st1" "trace st2 = trace st1"
    by simp_all
  show "trace st2 = trace st1" by (rule same(2))
  have v2: "\<forall>i<allocCountOf cfg. vars st2 (ptrVars cfg ! i) = Some (mallocAddr w i)"
    using v by (simp only: same(1))
  have fr: "execStmts w (frees (wrapperOf fn cfg)) st2 = (Normal, st2\<lparr>trace := trace st2 @ freeTrace w cfg\<rparr>)"
    by (rule run_frees[OF v2])
  have emp: "allocations (wrapperOf fn cfg) = [] \<longleftrightarrow> allocCountOf cfg = 0"
    using length_allocations[of fn cfg] by (metis length_0_conv)
  show "runWrapper w (wrapperOf fn cfg) =
     (if allocCountOf cfg = 0 \<or> c2 = NoTermination then (c2, st2)
      else (c2, st2\<lparr>trace := trace st2 @ freeTrace w cfg\<rparr>))"
    using a b fr emp by (cases c2) (simp_all add: runWrapper_def)
qed

lemma allocAddrs_allocTrace: "allocAddrs (allocTrace w cfg) = map (mallocAddr w) [0..<allocCountOf cfg]"
proof -
  have "allocAddrs (map (\<lambda>(i, s). allocEvent w i s) (enumerate 0 (allocations (wrapperOf fn cfg))))
      = map (mallocAddr w) [0..<0 + length (allocations (wrapperOf fn cfg))]" for fn
    by (rule allocAddrs_allocEvents[OF wrapper_allocs_isAlloc])
  then show ?thesis by (simp only: wrapper_allocEvents length_allocations add_0)
qed

lemma freeAddrs_allocTrace: "freeAddrs (allocTrace w cfg) = []"
proof -
  have "freeAddrs (map (\<lambda>(i, s). allocEvent w i s) (enumerate 0 (allocations (wrapperOf fn cfg)))) = []" for fn
    by (rule freeAddrs_allocEvents[OF wrapper_allocs_isAlloc])
  then show ?thesis by (simp only: wrapper_allocEvents)
qed

lemma allocAddrs_freeTrace: "allocAddrs (freeTrace w cfg) = []"
  unfolding freeTrace_def by (rule allocAddrs_frees)

lemma freeAddrs_freeTrace: "freeAddrs (freeTrace w cfg) = map (mallocAddr w) [0..<allocCountOf cfg]"
  unfolding freeTrace_def by (rule freeAddrs_frees)

lemma balanced_trace:
  "allocated (allocTrace w cfg @ freeTrace w cfg) = freed (allocTrace w cfg @ freeTrace w cfg)"
  by (simp only: allocated_allocAddrs freed_freeAddrs allocAddrs_append freeAddrs_append
      allocAddrs_allocTrace freeAddrs_allocTrace allocAddrs_freeTrace freeAddrs_freeTrace
      append_Nil append_Nil2)

lemma empty_traces: "allocCountOf cfg = 0 \<Longrightarrow> allocTrace w cfg = [] \<and> freeTrace w cfg = []"
  by (simp add: allocCountOf_def allocTrace_def freeTrace_def)

lemma find_position:
  "find P xs = Some x \<Longrightarrow>
   length (takeWhile (\<lambda>y. \<not> P y) xs) < length xs \<and> xs ! length (takeWhile (\<lambda>y. \<not> P y) xs) = x"
  by (induction xs) (auto split: if_splits)

lemma errorOutput_position:
  assumes "errorOutput cfg = Some e"
  shows "length (takeWhile (\<lambda>(n, t). \<not> isError t) (outputsOf cfg)) < allocCountOf cfg \<and>
         ptrVars cfg ! length (takeWhile (\<lambda>(n, t). \<not> isError t) (outputsOf cfg)) = e @ ''Ptr''"
proof -
  let ?k = "length (takeWhile (\<lambda>(n, t). \<not> isError t) (outputsOf cfg))"
  from assms obtain et where f: "find (\<lambda>(n, t). isError t) (outputsOf cfg) = Some et" and e: "e = fst et"
    by (auto simp: errorOutput_def)
  have tw: "(\<lambda>y. \<not> (case y of (n, t) \<Rightarrow> isError t)) = (\<lambda>(n, t). \<not> isError t)"
    by (simp add: fun_eq_iff)
  from find_position[OF f] have k: "?k < length (outputsOf cfg)" and x: "outputsOf cfg ! ?k = et"
    unfolding tw by simp_all
  from k have "ptrVars cfg ! ?k = fst (outputsOf cfg ! ?k) @ ''Ptr''"
    by (simp add: ptrVars_def nth_append)
  with k x e show ?thesis by (simp add: allocCountOf_def)
qed

lemma body_checked:
  assumes "checksReturn cfg" and "errorOutput cfg = Some e"
  shows "body (wrapperOf fn cfg) =
     [Call True (fname fn) (callArgs fn cfg), CheckNegative (e @ ''Ptr''), Result (shapeOf cfg)]"
  using assms by (auto simp: wrapper_body checksReturn_def)

lemma body_unchecked:
  assumes "checksReturn cfg" and "errorOutput cfg = None"
  shows "body (wrapperOf fn cfg) = [Call True (fname fn) (callArgs fn cfg), Result (shapeOf cfg)]"
  using assms by (auto simp: wrapper_body checksReturn_def)

lemma exec_call: "native w = Done r \<Longrightarrow> execStmt w (Call True f args) st = (Normal, st\<lparr>ret := Some r\<rparr>)"
  by (simp add: execStmt_def)

lemma exec_check_negative:
  assumes "ret st = Some r" and "r < 0" and "vars st v = Some a"
    and "getString (decoder w) (memory w) a = Some m"
  shows "execStmt w (CheckNegative v) st = (Raise (if m = [] then fallbackMessage else m), st)"
  using assms by (simp add: execStmt_def readVar_def andThen_def getStringAt_def)

lemma fst_run_wrapper:
  assumes a: "execStmts w (allocations (wrapperOf fn cfg)) initState = (Normal, st1)"
    and v: "\<forall>i<allocCountOf cfg. vars st1 (ptrVars cfg ! i) = Some (mallocAddr w i)"
  shows "fst (runWrapper w (wrapperOf fn cfg)) = fst (execStmts w (body (wrapperOf fn cfg)) st1)"
proof -
  obtain c2 st2 where b: "execStmts w (body (wrapperOf fn cfg)) st1 = (c2, st2)"
    by (cases "execStmts w (body (wrapperOf fn cfg)) st1")
  from run_wrapper(1)[OF a v b] show ?thesis unfolding b by simp
qed

subsection \<open>The house result\<close>

lemma collect_Done:
  "(\<And>x. x \<in> set xs \<Longrightarrow> g x = Done (h x)) \<Longrightarrow> collect (map g xs) = Done (map h xs)"
  by (induction xs) (simp_all add: andThen_def)

lemma getFloat64Array_Done:
  assumes "\<forall>i<cnt. f64At w (ptr + i * 8) = Some (h i)"
  shows "getFloat64Array w ptr cnt = Done (map (\<lambda>i. JNum (h i)) [0..<cnt])"
  unfolding getFloat64Array_def
  by (rule collect_Done) (use assms in \<open>simp add: getFloat64_def\<close>)

lemma getFloat64Array_buffer:
  assumes "\<forall>i<length buf. f64At w (ptr + i * 8) = Some (buf ! i)"
  shows "getFloat64Array w ptr (length buf) = Done (map JNum buf)"
proof -
  have "map (\<lambda>i. JNum (buf ! i)) [0..<length buf] = map JNum (map ((!) buf) [0..<length buf])"
    by simp
  also have "\<dots> = map JNum buf" by (simp only: map_nth)
  finally show ?thesis using getFloat64Array_Done[OF assms] by simp
qed

lemma house_entries:
  "filter (\<lambda>(n, c). resultType c = Some ''HouseResult'') functionConfig =
     [(''swe_houses'', configFor ''swe_houses''), (''swe_houses_ex'', configFor ''swe_houses_ex''),
      (''swe_houses_armc'', configFor ''swe_houses_armc'')]"
  by code_simp

lemma house_entry_facts:
  "n \<in> {''swe_houses'', ''swe_houses_ex'', ''swe_houses_armc''} \<Longrightarrow>
   outputsOf (configFor n) = [(''cusps'', Float64Array 13 None), (''ascmc'', Float64Array 10 None)] \<and>
   inputStringsOf (configFor n) = [] \<and> \<not> checksReturn (configFor n) \<and>
   returnModeOf (configFor n) \<noteq> RVoid \<and>
   shapeOf (configFor n) = HouseShape ''cuspsPtr'' ''ascmcPtr''"
  by (elim insertE emptyE; hypsubst; code_simp)

lemma evalShape_house:
  assumes c: "vars st c = Some pc" and a: "vars st a = Some pa"
    and len: "length buf = 13"
    and cb: "\<forall>i<13. f64At w (pc + i * 8) = Some (buf ! i)"
    and ab: "\<forall>i<10. f64At w (pa + i * 8) \<noteq> None"
  shows "evalShape w st (HouseShape c a) =
     Done (JObj ((''cusps'', JArr (map JNum (drop 1 buf))) #
                 houseFields (map (\<lambda>i. JNum (the (f64At w (pa + i * 8)))) [0..<10])))"
proof -
  from cb len have "\<forall>i<length buf. f64At w (pc + i * 8) = Some (buf ! i)" by simp
  from getFloat64Array_buffer[OF this] len have g1: "getFloat64Array w pc 13 = Done (map JNum buf)"
    by simp
  from ab have "\<forall>i<10. f64At w (pa + i * 8) = Some (the (f64At w (pa + i * 8)))" by simp
  from getFloat64Array_Done[OF this]
  have g2: "getFloat64Array w pa 10 = Done (map (\<lambda>i. JNum (the (f64At w (pa + i * 8)))) [0..<10])" .
  show ?thesis
    by (simp add: evalShape_def arrayOf_def readVar_def andThen_def c a g1 g2 drop_map)
qed

section \<open>The claims about calls of a wrapper\<close>

text \<open>
  Claim C2, allocation and release. The allocations of a wrapper are made before its
  \<^verbatim>\<open>try\<close> block, so the claim holds for the calls in which every allocation returns: when
  the pointer names are distinct, every text passed for an input string fits into the
  memory, and the call returns or raises, then the allocator calls of the invocation are one
  \<^verbatim>\<open>malloc\<close> for each output and one string allocation for each input string, followed by
  one release for each of these addresses; the multiset of the allocated addresses equals
  that of the released ones, whatever the raw routine, the check of its return value and the
  construction of the result do; and a wrapper without outputs and input strings calls the
  allocator not at all.
\<close>

theorem alloc_free_balance:
  assumes names: "distinct (map fst (outputsOf cfg) @ inputStringsOf cfg)"
    and fit: "stringsFit w cfg"
    and run: "runWrapper w (wrapperOf fn cfg) = (c, st)"
    and ends: "c \<noteq> NoTermination"
  shows "trace st = allocTrace w cfg @ freeTrace w cfg \<and>
         allocated (trace st) = freed (trace st) \<and>
         size (allocated (trace st)) = length (outputsOf cfg) + length (inputStringsOf cfg) \<and>
         (outputsOf cfg = [] \<and> inputStringsOf cfg = [] \<longrightarrow> trace st = [])"
proof -
  from names have d: "distinct (ptrVars cfg)" by (simp only: ptrVars_distinct)
  from run_allocations[OF d fit, of fn] obtain st1 where all:
    "execStmts w (allocations (wrapperOf fn cfg)) initState = (Normal, st1) \<and>
     ret st1 = None \<and> trace st1 = allocTrace w cfg \<and>
     (\<forall>i<allocCountOf cfg. vars st1 (ptrVars cfg ! i) = Some (mallocAddr w i)) \<and>
     (allocCountOf cfg = 0 \<longrightarrow> st1 = initState)" ..
  from all have a: "execStmts w (allocations (wrapperOf fn cfg)) initState = (Normal, st1)"
    by (rule conjunct1)
  from all have t1: "trace st1 = allocTrace w cfg" by (elim conjE)
  from all have v: "\<forall>i<allocCountOf cfg. vars st1 (ptrVars cfg ! i) = Some (mallocAddr w i)"
    by (elim conjE)
  obtain c2 st2 where b: "execStmts w (body (wrapperOf fn cfg)) st1 = (c2, st2)"
    by (cases "execStmts w (body (wrapperOf fn cfg)) st1")
  note rw = run_wrapper[OF a v b]
  have tr: "trace st = allocTrace w cfg @ freeTrace w cfg"
  proof (cases "allocCountOf cfg = 0")
    case True
    with rw(1) run have "st = st2" by simp
    with rw(2) t1 empty_traces[OF True, of w] show ?thesis by simp
  next
    case False
    show ?thesis
    proof (cases "c2 = NoTermination")
      case True
      with rw(1) run have "c = NoTermination" by simp
      with ends show ?thesis by simp
    next
      case nt: False
      with False rw(1) run have "st = st2\<lparr>trace := trace st2 @ freeTrace w cfg\<rparr>" by simp
      with rw(2) t1 show ?thesis by simp
    qed
  qed
  have bal: "allocated (trace st) = freed (trace st)" unfolding tr by (rule balanced_trace)
  have sz: "size (allocated (trace st)) = length (outputsOf cfg) + length (inputStringsOf cfg)"
    unfolding tr
    by (simp only: allocated_allocAddrs allocAddrs_append allocAddrs_allocTrace allocAddrs_freeTrace
        append_Nil2 size_mset length_map length_upt allocCountOf_def diff_zero)
  have em: "outputsOf cfg = [] \<and> inputStringsOf cfg = [] \<longrightarrow> trace st = []"
    unfolding tr using empty_traces[of cfg w] by (simp add: allocCountOf_def)
  from tr bal sz em show ?thesis by (intro conjI)
qed

text \<open>
  Claim C1, the check of the return value, for the wrappers that have an error buffer: when
  the configuration asks for the check, one of the outputs is an error buffer, and the raw
  routine returns a negative number, then the wrapper raises the failure whose message is
  the zero-terminated text at the address of that buffer, or the fixed message when that
  text is empty. The check stands between the call and the construction of the result.
\<close>

theorem negative_return_raises:
  assumes mode: "checksReturn cfg"
    and buf: "errorOutput cfg = Some e"
    and names: "distinct (map fst (outputsOf cfg) @ inputStringsOf cfg)"
    and fit: "stringsFit w cfg"
    and nat: "native w = Done r"
    and neg: "r < 0"
    and msg: "getString (decoder w) (memory w) (errorAddr w cfg) = Some m"
  shows "body (wrapperOf fn cfg) =
           [Call True (fname fn) (callArgs fn cfg), CheckNegative (e @ ''Ptr''), Result (shapeOf cfg)] \<and>
         fst (runWrapper w (wrapperOf fn cfg)) = Raise (if m = [] then fallbackMessage else m)"
proof -
  from names have d: "distinct (ptrVars cfg)" by (simp only: ptrVars_distinct)
  from run_allocations[OF d fit, of fn] obtain st1 where all:
    "execStmts w (allocations (wrapperOf fn cfg)) initState = (Normal, st1) \<and>
     ret st1 = None \<and> trace st1 = allocTrace w cfg \<and>
     (\<forall>i<allocCountOf cfg. vars st1 (ptrVars cfg ! i) = Some (mallocAddr w i)) \<and>
     (allocCountOf cfg = 0 \<longrightarrow> st1 = initState)" ..
  from all have a: "execStmts w (allocations (wrapperOf fn cfg)) initState = (Normal, st1)"
    by (rule conjunct1)
  from all have v: "\<forall>i<allocCountOf cfg. vars st1 (ptrVars cfg ! i) = Some (mallocAddr w i)"
    by (elim conjE)
  note bd = body_checked[OF mode buf, of fn]
  from errorOutput_position[OF buf] v have "vars st1 (e @ ''Ptr'') = Some (errorAddr w cfg)"
    unfolding errorAddr_def by metis
  then have ev: "vars (st1\<lparr>ret := Some r\<rparr>) (e @ ''Ptr'') = Some (errorAddr w cfg)" by simp
  have rs: "ret (st1\<lparr>ret := Some r\<rparr>) = Some r" by simp
  have "execStmts w (body (wrapperOf fn cfg)) st1 =
      (Raise (if m = [] then fallbackMessage else m), st1\<lparr>ret := Some r\<rparr>)"
    unfolding bd
    by (simp add: exec_call[OF nat] exec_check_negative[OF rs neg ev msg])
  with fst_run_wrapper[OF a v] have "fst (runWrapper w (wrapperOf fn cfg)) = Raise (if m = [] then fallbackMessage else m)"
    by simp
  with bd show ?thesis by (intro conjI)
qed

text \<open>
  Claim C9, no error buffer: when the configuration asks for the check but no output is an
  error buffer, the body of the wrapper is the call followed by the construction of the
  result, no statement of the wrapper is a check of the return value, and a call completes
  as the construction of the result does, whatever number the raw routine has returned.
\<close>

theorem no_error_buffer_no_check:
  assumes mode: "checksReturn cfg"
    and buf: "errorOutput cfg = None"
    and names: "distinct (map fst (outputsOf cfg) @ inputStringsOf cfg)"
    and fit: "stringsFit w cfg"
    and nat: "native w = Done r"
  shows "body (wrapperOf fn cfg) = [Call True (fname fn) (callArgs fn cfg), Result (shapeOf cfg)] \<and>
         CheckNegative v \<notin> set (allocations (wrapperOf fn cfg) @ body (wrapperOf fn cfg) @ frees (wrapperOf fn cfg)) \<and>
         fst (runWrapper w (wrapperOf fn cfg)) =
           fst (execStmt w (Result (shapeOf cfg))
                  ((snd (execStmts w (allocations (wrapperOf fn cfg)) initState))\<lparr>ret := Some r\<rparr>))"
proof -
  from names have d: "distinct (ptrVars cfg)" by (simp only: ptrVars_distinct)
  from run_allocations[OF d fit, of fn] obtain st1 where all:
    "execStmts w (allocations (wrapperOf fn cfg)) initState = (Normal, st1) \<and>
     ret st1 = None \<and> trace st1 = allocTrace w cfg \<and>
     (\<forall>i<allocCountOf cfg. vars st1 (ptrVars cfg ! i) = Some (mallocAddr w i)) \<and>
     (allocCountOf cfg = 0 \<longrightarrow> st1 = initState)" ..
  from all have a: "execStmts w (allocations (wrapperOf fn cfg)) initState = (Normal, st1)"
    by (rule conjunct1)
  from all have v: "\<forall>i<allocCountOf cfg. vars st1 (ptrVars cfg ! i) = Some (mallocAddr w i)"
    by (elim conjE)
  note bd = body_unchecked[OF mode buf, of fn]
  have no: "CheckNegative v \<notin> set (allocations (wrapperOf fn cfg) @ body (wrapperOf fn cfg) @ frees (wrapperOf fn cfg))"
    unfolding bd by (auto simp: wrapper_allocations wrapper_frees)
  have "execStmts w (body (wrapperOf fn cfg)) st1 = execStmt w (Result (shapeOf cfg)) (st1\<lparr>ret := Some r\<rparr>)"
    unfolding bd
    by (cases "execStmt w (Result (shapeOf cfg)) (st1\<lparr>ret := Some r\<rparr>)"; cases "fst (execStmt w (Result (shapeOf cfg)) (st1\<lparr>ret := Some r\<rparr>))")
       (simp_all add: exec_call[OF nat])
  with fst_run_wrapper[OF a v] have "fst (runWrapper w (wrapperOf fn cfg)) =
      fst (execStmt w (Result (shapeOf cfg)) (st1\<lparr>ret := Some r\<rparr>))"
    by simp
  with a bd no show ?thesis by simp
qed

text \<open>
  Claim C7, the cusps of the house result: for every entry of the configuration table whose
  result type is \<^verbatim>\<open>HouseResult\<close>, when the memory holds the thirteen numbers \<open>buf\<close> at the
  address of the first allocation, the wrapper returns an object whose field \<^verbatim>\<open>cusps\<close> is
  the sequence of the last twelve of them; it starts with the second number of \<open>buf\<close>.
\<close>

theorem house_cusps_trimmed:
  assumes entry: "(n, cfg) \<in> set functionConfig"
    and house: "resultType cfg = Some ''HouseResult''"
    and nat: "native w = Done r"
    and len: "length buf = 13"
    and cb: "\<forall>i<13. f64At w (mallocAddr w 0 + i * 8) = Some (buf ! i)"
    and ab: "\<forall>i<10. f64At w (mallocAddr w 1 + i * 8) \<noteq> None"
  shows "\<exists>fields. fst (runWrapper w (wrapperOf fn cfg)) = Return (JObj fields) \<and>
           map_of fields ''cusps'' = Some (JArr (map JNum (drop 1 buf))) \<and>
           length (drop 1 buf) = 12 \<and> drop 1 buf ! 0 = buf ! 1"
proof -
  from entry house have "(n, cfg) \<in> set (filter (\<lambda>(n, c). resultType c = Some ''HouseResult'') functionConfig)"
    by simp
  then have nm: "n \<in> {''swe_houses'', ''swe_houses_ex'', ''swe_houses_armc''}" and cf: "cfg = configFor n"
    unfolding house_entries by auto
  note facts = house_entry_facts[OF nm, folded cf]
  from facts have outs: "outputsOf cfg = [(''cusps'', Float64Array 13 None), (''ascmc'', Float64Array 10 None)]"
    and ins: "inputStringsOf cfg = []" and nc: "\<not> checksReturn cfg"
    and nv: "returnModeOf cfg \<noteq> RVoid" and sh: "shapeOf cfg = HouseShape ''cuspsPtr'' ''ascmcPtr''"
    by simp_all
  have d: "distinct (ptrVars cfg)" by (simp add: ptrVars_def outs ins)
  have fit: "stringsFit w cfg" by (simp add: stringsFit_def ins)
  have cnt: "allocCountOf cfg = 2" by (simp add: allocCountOf_def outs ins)
  from run_allocations[OF d fit, of fn] obtain st1 where all:
    "execStmts w (allocations (wrapperOf fn cfg)) initState = (Normal, st1) \<and>
     ret st1 = None \<and> trace st1 = allocTrace w cfg \<and>
     (\<forall>i<allocCountOf cfg. vars st1 (ptrVars cfg ! i) = Some (mallocAddr w i)) \<and>
     (allocCountOf cfg = 0 \<longrightarrow> st1 = initState)" ..
  from all have a: "execStmts w (allocations (wrapperOf fn cfg)) initState = (Normal, st1)"
    by (rule conjunct1)
  from all have v: "\<forall>i<allocCountOf cfg. vars st1 (ptrVars cfg ! i) = Some (mallocAddr w i)"
    by (elim conjE)
  from v cnt have "vars st1 (ptrVars cfg ! 0) = Some (mallocAddr w 0)"
    and "vars st1 (ptrVars cfg ! 1) = Some (mallocAddr w 1)" by simp_all
  then have vc: "vars (st1\<lparr>ret := Some r\<rparr>) ''cuspsPtr'' = Some (mallocAddr w 0)"
    and va: "vars (st1\<lparr>ret := Some r\<rparr>) ''ascmcPtr'' = Some (mallocAddr w 1)"
    by (simp_all add: ptrVars_def outs ins)
  define fields where "fields = (''cusps'', JArr (map JNum (drop 1 buf))) #
      houseFields (map (\<lambda>i. JNum (the (f64At w (mallocAddr w 1 + i * 8)))) [0..<10])"
  have ev: "evalShape w (st1\<lparr>ret := Some r\<rparr>) (HouseShape ''cuspsPtr'' ''ascmcPtr'') = Done (JObj fields)"
    unfolding fields_def by (rule evalShape_house[OF vc va len cb ab])
  have bd: "body (wrapperOf fn cfg) = [Call True (fname fn) (callArgs fn cfg), Result (HouseShape ''cuspsPtr'' ''ascmcPtr'')]"
    using nc nv by (simp add: wrapper_body sh)
  have rs: "execStmt w (Result (HouseShape ''cuspsPtr'' ''ascmcPtr'')) (st1\<lparr>ret := Some r\<rparr>)
      = (Return (JObj fields), st1\<lparr>ret := Some r\<rparr>)"
    by (simp add: execStmt_def hasReturnLine_def ev)
  have "execStmts w (body (wrapperOf fn cfg)) st1 = (Return (JObj fields), st1\<lparr>ret := Some r\<rparr>)"
    unfolding bd by (simp add: exec_call[OF nat] rs)
  with fst_run_wrapper[OF a v] have ret: "fst (runWrapper w (wrapperOf fn cfg)) = Return (JObj fields)"
    by simp
  have m: "map_of fields ''cusps'' = Some (JArr (map JNum (drop 1 buf)))" by (simp add: fields_def)
  from len have l: "length (drop 1 buf) = 12" and h: "drop 1 buf ! 0 = buf ! 1" by simp_all
  from ret m l h show ?thesis by blast
qed

end
